theory Spec2Isabelle
  imports Main "HOL-Library.Word"
begin

section \<open>Tile geometry of \<open>ScatterTile\<close>\<close>

text \<open>
  The template parameters of \<open>struct ScatterTile\<close> in
  \<open>gunrock/util/io/scatter_tile.cuh\<close>.  The cache modifier only selects the
  store instruction and is not modelled.  The tile constants are compile-time integers;
  they are taken as natural numbers and the arithmetic on them is exact.
\<close>

record tile_shape =
  LOG_LOADS_PER_TILE :: nat
  LOG_LOAD_VEC_SIZE :: nat
  ACTIVE_THREADS :: nat

text \<open>The anonymous \<open>enum\<close>: \<open>1 << n\<close> is \<open>push_bit n 1\<close>.\<close>

definition LOADS_PER_TILE :: "tile_shape \<Rightarrow> nat" where
  "LOADS_PER_TILE cfg = push_bit (LOG_LOADS_PER_TILE cfg) 1"

definition LOAD_VEC_SIZE :: "tile_shape \<Rightarrow> nat" where
  "LOAD_VEC_SIZE cfg = push_bit (LOG_LOAD_VEC_SIZE cfg) 1"

definition LOG_ELEMENTS_PER_THREAD :: "tile_shape \<Rightarrow> nat" where
  "LOG_ELEMENTS_PER_THREAD cfg = LOG_LOADS_PER_TILE cfg + LOG_LOAD_VEC_SIZE cfg"

definition ELEMENTS_PER_THREAD :: "tile_shape \<Rightarrow> nat" where
  "ELEMENTS_PER_THREAD cfg = push_bit (LOG_ELEMENTS_PER_THREAD cfg) 1"

definition TILE_SIZE :: "tile_shape \<Rightarrow> nat" where
  "TILE_SIZE cfg = ACTIVE_THREADS cfg * ELEMENTS_PER_THREAD cfg"

text \<open>
  The local \<open>int tile_rank\<close> of the two boundary-guarded \<open>Invoke\<close> overloads:
  \<open>(threadIdx.x << LOG_LOAD_VEC_SIZE) + (LOAD * ACTIVE_THREADS * LOAD_VEC_SIZE) + VEC\<close>.
  The lane index \<open>threadIdx.x\<close> is an implicit input of the source and an explicit
  argument here.
\<close>

definition tile_rank :: "tile_shape \<Rightarrow> nat \<Rightarrow> nat \<Rightarrow> nat \<Rightarrow> int" where
  "tile_rank cfg threadIdx_x LOAD VEC =
     int (push_bit (LOG_LOAD_VEC_SIZE cfg) threadIdx_x
          + (LOAD * ACTIVE_THREADS cfg * LOAD_VEC_SIZE cfg) + VEC)"

text \<open>
  The same expression as the machine computes it: \<open>threadIdx.x\<close> is an unsigned
  32-bit integer, the sum is formed in unsigned 32-bit arithmetic and converted to
  \<open>int\<close>.  Lemma \<open>tile_rank_machine_exact\<close> below shows that for the elements of a
  tile of fewer than \<open>2^31\<close> elements this is \<open>tile_rank\<close>, which the model uses.
\<close>

definition tile_rank_machine :: "tile_shape \<Rightarrow> 32 word \<Rightarrow> nat \<Rightarrow> nat \<Rightarrow> int" where
  "tile_rank_machine cfg threadIdx_x LOAD VEC =
     sint (push_bit (LOG_LOAD_VEC_SIZE cfg) threadIdx_x
           + word_of_nat (LOAD * ACTIVE_THREADS cfg * LOAD_VEC_SIZE cfg)
           + word_of_nat VEC)"

section \<open>State of one lane's call\<close>

text \<open>
  What one lane's instruction stream does is recorded as it happens: the evaluation of
  the dispatch condition of \<open>Scatter\<close>, each call of the transform on
  \<open>data[LOAD][VEC]\<close>, and each store issued for \<open>data[LOAD][VEC]\<close> (with the
  address and the value stored).
\<close>

datatype 'a event =
    Compare_tile_size
  | Transform_call nat nat
  | Store_call nat nat int 'a

text \<open>
  \<open>mem\<close> is the memory that \<open>dest\<close> points into, one cell per element of type
  \<open>T\<close>, addressed by element index (pointer arithmetic \<open>dest + offset\<close> is integer
  addition); the source checks no bounds and neither does the store.  \<open>data\<close> is the
  lane-local array \<open>T data[][LOAD_VEC_SIZE]\<close>, indexed \<open>data[LOAD][VEC]\<close>.  The offset
  and flag arrays and \<open>partial_tile_size\<close> (a \<open>const\<close> reference in the source) are
  only read and are passed as arguments.  The data array, the offset array, the flag
  array and the object \<open>partial_tile_size\<close> refers to are taken to lie outside the
  destination memory and apart from each other, as lane-local storage does.  \<open>SizeT\<close>
  is taken as the integers and \<open>Flag\<close> as the truth value that the \<open>if\<close> tests.
\<close>

record 'a lane_state =
  mem :: "int \<Rightarrow> 'a"
  data :: "nat \<Rightarrow> nat \<Rightarrow> 'a"
  trace :: "'a event list"

text \<open>
  Modelled from the spec: \<open>ModifiedStore<CACHE_MODIFIER>::St(val, ptr)\<close> is declared in
  \<open>modified_store.cuh\<close>, a header outside this development.  The spec describes
  it as a single-element store that performs exactly one write of the value to the
  address, returns nothing and never fails.
\<close>

definition ModifiedStore_St :: "'a \<Rightarrow> int \<Rightarrow> (int \<Rightarrow> 'a) \<Rightarrow> int \<Rightarrow> 'a" where
  "ModifiedStore_St val ptr m = m(ptr := val)"

text \<open>
  Modelled from the spec: \<open>Operators<T>::NopTransform\<close> is declared in
  \<open>operators.cuh\<close>, a header outside this development.  The spec calls it the
  identity transform.
\<close>

definition NopTransform :: "'a \<Rightarrow> 'a" where
  "NopTransform x = x"

text \<open>
  The two statements shared by the bodies of all four \<open>Invoke\<close> overloads:
  \<open>Transform(data[LOAD][VEC]);
   ModifiedStore<CACHE_MODIFIER>::St(data[LOAD][VEC], dest + scatter_offsets[LOAD][VEC]);\<close>
  The transform takes the array element by reference and mutates it in place; the store
  then reads the element back.
\<close>

definition transform_and_store ::
  "('a \<Rightarrow> 'a) \<Rightarrow> int \<Rightarrow> (nat \<Rightarrow> nat \<Rightarrow> int) \<Rightarrow> nat \<Rightarrow> nat \<Rightarrow> 'a lane_state \<Rightarrow> 'a lane_state" where
  "transform_and_store Transform dest scatter_offsets LOAD VEC s =
     (let s1 = s\<lparr>data := (data s)(LOAD := (data s LOAD)(VEC := Transform (data s LOAD VEC))),
                  trace := trace s @ [Transform_call LOAD VEC]\<rparr>;
          ptr = dest + scatter_offsets LOAD VEC
      in s1\<lparr>mem := ModifiedStore_St (data s1 LOAD VEC) ptr (mem s1),
            trace := trace s1 @ [Store_call LOAD VEC ptr (data s1 LOAD VEC)]\<rparr>)"

section \<open>The iteration engine: \<open>Iterate<LOAD, VEC>::Invoke\<close>\<close>

text \<open>
  The template recursion over \<open>(LOAD, VEC)\<close>.  The three specialisations are the three
  branches, chosen as the compiler chooses them: \<open>Iterate<LOADS_PER_TILE, 0>\<close>
  terminates, \<open>Iterate<LOAD, LOAD_VEC_SIZE>\<close> moves to the next load, and the primary
  template handles one element and moves to the next vector slot.  The instances
  generated from \<open>Iterate<0, 0>\<close> have \<open>LOAD < LOADS_PER_TILE\<close> and
  \<open>VEC \<le> LOAD_VEC_SIZE\<close>, or are the terminating one; for any other pair the template
  recursion has no end and no program exists, and the functions below return the state
  unchanged there.
\<close>

function Invoke_unguarded ::
  "tile_shape \<Rightarrow> ('a \<Rightarrow> 'a) \<Rightarrow> nat \<Rightarrow> nat \<Rightarrow> int \<Rightarrow> (nat \<Rightarrow> nat \<Rightarrow> int)
     \<Rightarrow> 'a lane_state \<Rightarrow> 'a lane_state" where
  "Invoke_unguarded cfg Transform LOAD VEC dest scatter_offsets s =
     (if LOAD = LOADS_PER_TILE cfg \<and> VEC = 0 then s
      else if LOADS_PER_TILE cfg \<le> LOAD \<or> LOAD_VEC_SIZE cfg < VEC then s
      else if VEC = LOAD_VEC_SIZE cfg then
        Invoke_unguarded cfg Transform (LOAD + 1) 0 dest scatter_offsets s
      else
        Invoke_unguarded cfg Transform LOAD (VEC + 1) dest scatter_offsets
          (transform_and_store Transform dest scatter_offsets LOAD VEC s))"
  by pat_completeness auto
termination
  by (relation "measures [\<lambda>(cfg, T, LOAD, VEC, r). LOADS_PER_TILE cfg - LOAD,
                          \<lambda>(cfg, T, LOAD, VEC, r). LOAD_VEC_SIZE cfg - VEC]") auto

function Invoke_flags ::
  "tile_shape \<Rightarrow> ('a \<Rightarrow> 'a) \<Rightarrow> nat \<Rightarrow> nat \<Rightarrow> int \<Rightarrow> (nat \<Rightarrow> nat \<Rightarrow> int)
     \<Rightarrow> (nat \<Rightarrow> nat \<Rightarrow> bool) \<Rightarrow> 'a lane_state \<Rightarrow> 'a lane_state" where
  "Invoke_flags cfg Transform LOAD VEC dest scatter_offsets valid_flags s =
     (if LOAD = LOADS_PER_TILE cfg \<and> VEC = 0 then s
      else if LOADS_PER_TILE cfg \<le> LOAD \<or> LOAD_VEC_SIZE cfg < VEC then s
      else if VEC = LOAD_VEC_SIZE cfg then
        Invoke_flags cfg Transform (LOAD + 1) 0 dest scatter_offsets valid_flags s
      else
        Invoke_flags cfg Transform LOAD (VEC + 1) dest scatter_offsets valid_flags
          (if valid_flags LOAD VEC
           then transform_and_store Transform dest scatter_offsets LOAD VEC s
           else s))"
  by pat_completeness auto
termination
  by (relation "measures [\<lambda>(cfg, T, LOAD, VEC, r). LOADS_PER_TILE cfg - LOAD,
                          \<lambda>(cfg, T, LOAD, VEC, r). LOAD_VEC_SIZE cfg - VEC]") auto

function Invoke_partial ::
  "tile_shape \<Rightarrow> nat \<Rightarrow> ('a \<Rightarrow> 'a) \<Rightarrow> nat \<Rightarrow> nat \<Rightarrow> int \<Rightarrow> (nat \<Rightarrow> nat \<Rightarrow> int)
     \<Rightarrow> int \<Rightarrow> 'a lane_state \<Rightarrow> 'a lane_state" where
  "Invoke_partial cfg threadIdx_x Transform LOAD VEC dest scatter_offsets partial_tile_size s =
     (if LOAD = LOADS_PER_TILE cfg \<and> VEC = 0 then s
      else if LOADS_PER_TILE cfg \<le> LOAD \<or> LOAD_VEC_SIZE cfg < VEC then s
      else if VEC = LOAD_VEC_SIZE cfg then
        Invoke_partial cfg threadIdx_x Transform (LOAD + 1) 0 dest scatter_offsets
          partial_tile_size s
      else
        Invoke_partial cfg threadIdx_x Transform LOAD (VEC + 1) dest scatter_offsets
          partial_tile_size
          (if tile_rank cfg threadIdx_x LOAD VEC < partial_tile_size
           then transform_and_store Transform dest scatter_offsets LOAD VEC s
           else s))"
  by pat_completeness auto
termination
  by (relation "measures [\<lambda>(cfg, t, T, LOAD, VEC, r). LOADS_PER_TILE cfg - LOAD,
                          \<lambda>(cfg, t, T, LOAD, VEC, r). LOAD_VEC_SIZE cfg - VEC]") auto

function Invoke_flags_partial ::
  "tile_shape \<Rightarrow> nat \<Rightarrow> ('a \<Rightarrow> 'a) \<Rightarrow> nat \<Rightarrow> nat \<Rightarrow> int \<Rightarrow> (nat \<Rightarrow> nat \<Rightarrow> int)
     \<Rightarrow> (nat \<Rightarrow> nat \<Rightarrow> bool) \<Rightarrow> int \<Rightarrow> 'a lane_state \<Rightarrow> 'a lane_state" where
  "Invoke_flags_partial cfg threadIdx_x Transform LOAD VEC dest scatter_offsets valid_flags
       partial_tile_size s =
     (if LOAD = LOADS_PER_TILE cfg \<and> VEC = 0 then s
      else if LOADS_PER_TILE cfg \<le> LOAD \<or> LOAD_VEC_SIZE cfg < VEC then s
      else if VEC = LOAD_VEC_SIZE cfg then
        Invoke_flags_partial cfg threadIdx_x Transform (LOAD + 1) 0 dest scatter_offsets
          valid_flags partial_tile_size s
      else
        Invoke_flags_partial cfg threadIdx_x Transform LOAD (VEC + 1) dest scatter_offsets
          valid_flags partial_tile_size
          (if valid_flags LOAD VEC \<and> tile_rank cfg threadIdx_x LOAD VEC < partial_tile_size
           then transform_and_store Transform dest scatter_offsets LOAD VEC s
           else s))"
  by pat_completeness auto
termination
  by (relation "measures [\<lambda>(cfg, t, T, LOAD, VEC, r). LOADS_PER_TILE cfg - LOAD,
                          \<lambda>(cfg, t, T, LOAD, VEC, r). LOAD_VEC_SIZE cfg - VEC]") auto

declare Invoke_unguarded.simps [simp del]
declare Invoke_flags.simps [simp del]
declare Invoke_partial.simps [simp del]
declare Invoke_flags_partial.simps [simp del]

section \<open>The interface: \<open>Scatter\<close>\<close>

text \<open>
  The four overloads of \<open>Scatter\<close>.  The default argument
  \<open>partial_tile_size = TILE_SIZE\<close> is supplied by the caller.  The condition
  \<open>partial_tile_size < TILE_SIZE\<close> is evaluated by the two overloads that take a
  transform; the other two only forward to them with \<open>NopTransform\<close>.
\<close>

definition Scatter_transform ::
  "tile_shape \<Rightarrow> nat \<Rightarrow> ('a \<Rightarrow> 'a) \<Rightarrow> int \<Rightarrow> (nat \<Rightarrow> nat \<Rightarrow> int) \<Rightarrow> int
     \<Rightarrow> 'a lane_state \<Rightarrow> 'a lane_state" where
  "Scatter_transform cfg threadIdx_x Transform dest scatter_offsets partial_tile_size s =
     (let s0 = s\<lparr>trace := trace s @ [Compare_tile_size]\<rparr>
      in if partial_tile_size < int (TILE_SIZE cfg)
         then Invoke_partial cfg threadIdx_x Transform 0 0 dest scatter_offsets
                partial_tile_size s0
         else Invoke_unguarded cfg Transform 0 0 dest scatter_offsets s0)"

definition Scatter ::
  "tile_shape \<Rightarrow> nat \<Rightarrow> int \<Rightarrow> (nat \<Rightarrow> nat \<Rightarrow> int) \<Rightarrow> int
     \<Rightarrow> 'a lane_state \<Rightarrow> 'a lane_state" where
  "Scatter cfg threadIdx_x dest scatter_offsets partial_tile_size s =
     Scatter_transform cfg threadIdx_x NopTransform dest scatter_offsets partial_tile_size s"

definition Scatter_flags_transform ::
  "tile_shape \<Rightarrow> nat \<Rightarrow> ('a \<Rightarrow> 'a) \<Rightarrow> int \<Rightarrow> (nat \<Rightarrow> nat \<Rightarrow> bool) \<Rightarrow> (nat \<Rightarrow> nat \<Rightarrow> int)
     \<Rightarrow> int \<Rightarrow> 'a lane_state \<Rightarrow> 'a lane_state" where
  "Scatter_flags_transform cfg threadIdx_x Transform dest flags scatter_offsets
       partial_tile_size s =
     (let s0 = s\<lparr>trace := trace s @ [Compare_tile_size]\<rparr>
      in if partial_tile_size < int (TILE_SIZE cfg)
         then Invoke_flags_partial cfg threadIdx_x Transform 0 0 dest scatter_offsets flags
                partial_tile_size s0
         else Invoke_flags cfg Transform 0 0 dest scatter_offsets flags s0)"

definition Scatter_flags ::
  "tile_shape \<Rightarrow> nat \<Rightarrow> int \<Rightarrow> (nat \<Rightarrow> nat \<Rightarrow> bool) \<Rightarrow> (nat \<Rightarrow> nat \<Rightarrow> int) \<Rightarrow> int
     \<Rightarrow> 'a lane_state \<Rightarrow> 'a lane_state" where
  "Scatter_flags cfg threadIdx_x dest flags scatter_offsets partial_tile_size s =
     Scatter_flags_transform cfg threadIdx_x NopTransform dest flags scatter_offsets
       partial_tile_size s"

section \<open>Vocabulary of the properties\<close>

subsection \<open>The traversal as a list\<close>

text \<open>
  The elements of one lane's tile in the order of the traversal: load by load, the
  vector slot varying fastest.
\<close>

definition tile_elements :: "tile_shape \<Rightarrow> (nat \<times> nat) list" where
  "tile_elements cfg = List.product [0..<LOADS_PER_TILE cfg] [0..<LOAD_VEC_SIZE cfg]"

text \<open>The elements still to be visited when the recursion stands at \<open>Iterate<LOAD, VEC>\<close>.\<close>

definition elements_from :: "tile_shape \<Rightarrow> nat \<Rightarrow> nat \<Rightarrow> (nat \<times> nat) list" where
  "elements_from cfg LOAD VEC =
     (if LOAD < LOADS_PER_TILE cfg
      then map (Pair LOAD) [VEC..<LOAD_VEC_SIZE cfg]
           @ concat (map (\<lambda>l. map (Pair l) [0..<LOAD_VEC_SIZE cfg]) [Suc LOAD..<LOADS_PER_TILE cfg])
      else [])"

text \<open>What one instance of the primary template does for its element under a guard.\<close>

definition guarded_step ::
  "(nat \<Rightarrow> nat \<Rightarrow> bool) \<Rightarrow> ('a \<Rightarrow> 'a) \<Rightarrow> int \<Rightarrow> (nat \<Rightarrow> nat \<Rightarrow> int) \<Rightarrow> nat \<times> nat
     \<Rightarrow> 'a lane_state \<Rightarrow> 'a lane_state" where
  "guarded_step guard Transform dest scatter_offsets e s =
     (if guard (fst e) (snd e)
      then transform_and_store Transform dest scatter_offsets (fst e) (snd e) s
      else s)"

text \<open>
  The two events of an element that passes its guard, for the value \<open>dat l v\<close> the
  element holds before the call: the transform call, then the store of the transformed
  value.
\<close>

definition element_events ::
  "('a \<Rightarrow> 'a) \<Rightarrow> int \<Rightarrow> (nat \<Rightarrow> nat \<Rightarrow> int) \<Rightarrow> (nat \<Rightarrow> nat \<Rightarrow> 'a) \<Rightarrow> nat \<times> nat \<Rightarrow> 'a event list" where
  "element_events Transform dest scatter_offsets dat e =
     [Transform_call (fst e) (snd e),
      Store_call (fst e) (snd e) (dest + scatter_offsets (fst e) (snd e))
        (Transform (dat (fst e) (snd e)))]"

text \<open>The memory write of such an element: address and value.\<close>

definition element_write ::
  "('a \<Rightarrow> 'a) \<Rightarrow> int \<Rightarrow> (nat \<Rightarrow> nat \<Rightarrow> int) \<Rightarrow> (nat \<Rightarrow> nat \<Rightarrow> 'a) \<Rightarrow> nat \<times> nat \<Rightarrow> int \<times> 'a" where
  "element_write Transform dest scatter_offsets dat e =
     (dest + scatter_offsets (fst e) (snd e), Transform (dat (fst e) (snd e)))"

text \<open>The elements of a list that pass a guard, in the list's order.\<close>

definition passing :: "(nat \<Rightarrow> nat \<Rightarrow> bool) \<Rightarrow> (nat \<times> nat) list \<Rightarrow> (nat \<times> nat) list" where
  "passing guard es = filter (\<lambda>e. guard (fst e) (snd e)) es"

text \<open>A sequence of writes applied to a memory, the first write first.\<close>

definition apply_writes :: "(int \<times> 'a) list \<Rightarrow> (int \<Rightarrow> 'a) \<Rightarrow> int \<Rightarrow> 'a" where
  "apply_writes ws m = fold (\<lambda>w m'. m'(fst w := snd w)) ws m"

text \<open>
  The effect of a traversal under a guard on the three components of the state:
  the events appended (after the events \<open>pre\<close> that precede the traversal), the data
  array and the memory.
\<close>

definition scatter_result ::
  "tile_shape \<Rightarrow> (nat \<Rightarrow> nat \<Rightarrow> bool) \<Rightarrow> ('a \<Rightarrow> 'a) \<Rightarrow> int \<Rightarrow> (nat \<Rightarrow> nat \<Rightarrow> int)
     \<Rightarrow> 'a event list \<Rightarrow> 'a lane_state \<Rightarrow> 'a lane_state \<Rightarrow> bool" where
  "scatter_result cfg guard Transform dest scatter_offsets pre s s' \<longleftrightarrow>
     trace s' = trace s @ pre @ concat (map (element_events Transform dest scatter_offsets (data s))
                                  (passing guard (tile_elements cfg))) \<and>
     data s' = (\<lambda>l v. if (l, v) \<in> set (tile_elements cfg) \<and> guard l v
                       then Transform (data s l v) else data s l v) \<and>
     mem s' = apply_writes (map (element_write Transform dest scatter_offsets (data s))
                              (passing guard (tile_elements cfg))) (mem s)"

subsection \<open>Observing a call\<close>

text \<open>The events a call appended to the trace of the state it started from.\<close>

definition events_of_call :: "'a lane_state \<Rightarrow> 'a lane_state \<Rightarrow> 'a event list" where
  "events_of_call s s' = drop (length (trace s)) (trace s')"

text \<open>
  The stores a list of events holds for the element \<open>(l, v)\<close>, each as address and
  value.  An element is written when there is at least one.
\<close>

fun store_of :: "nat \<Rightarrow> nat \<Rightarrow> 'a event \<Rightarrow> (int \<times> 'a) list" where
  "store_of l v (Store_call l' v' ptr val) = (if l' = l \<and> v' = v then [(ptr, val)] else [])"
| "store_of l v (Transform_call l' v') = []"
| "store_of l v Compare_tile_size = []"

definition stores_of_element :: "'a event list \<Rightarrow> nat \<Rightarrow> nat \<Rightarrow> (int \<times> 'a) list" where
  "stores_of_element tr l v = concat (map (store_of l v) tr)"

text \<open>
  What a call under \<open>guard\<close> is to store for \<open>(l, v)\<close>: the one store of the
  transformed value to \<open>dest + scatter_offsets[l][v]\<close> for an element of the tile that
  passes the guard, nothing for any other pair.
\<close>

definition expected_stores ::
  "tile_shape \<Rightarrow> (nat \<Rightarrow> nat \<Rightarrow> bool) \<Rightarrow> ('a \<Rightarrow> 'a) \<Rightarrow> int \<Rightarrow> (nat \<Rightarrow> nat \<Rightarrow> int)
     \<Rightarrow> (nat \<Rightarrow> nat \<Rightarrow> 'a) \<Rightarrow> nat \<Rightarrow> nat \<Rightarrow> (int \<times> 'a) list" where
  "expected_stores cfg guard Transform dest scatter_offsets dat l v =
     (if l < LOADS_PER_TILE cfg \<and> v < LOAD_VEC_SIZE cfg \<and> guard l v
      then [(dest + scatter_offsets l v, Transform (dat l v))] else [])"

text \<open>The address \<open>a\<close> is the target of some element of the tile that passes the guard.\<close>

definition targeted ::
  "tile_shape \<Rightarrow> (nat \<Rightarrow> nat \<Rightarrow> bool) \<Rightarrow> int \<Rightarrow> (nat \<Rightarrow> nat \<Rightarrow> int) \<Rightarrow> int \<Rightarrow> bool" where
  "targeted cfg guard dest scatter_offsets a \<longleftrightarrow>
     list_ex (\<lambda>e. a = dest + scatter_offsets (fst e) (snd e)) (passing guard (tile_elements cfg))"

text \<open>
  The memory writes of the elements of the tile that pass the guard, in the order of the
  traversal, each with the transformed value of what the element holds before the call.
\<close>

definition guarded_writes ::
  "tile_shape \<Rightarrow> (nat \<Rightarrow> nat \<Rightarrow> bool) \<Rightarrow> ('a \<Rightarrow> 'a) \<Rightarrow> int \<Rightarrow> (nat \<Rightarrow> nat \<Rightarrow> int)
     \<Rightarrow> (nat \<Rightarrow> nat \<Rightarrow> 'a) \<Rightarrow> (int \<times> 'a) list" where
  "guarded_writes cfg guard Transform dest scatter_offsets dat =
     map (element_write Transform dest scatter_offsets dat) (passing guard (tile_elements cfg))"

text \<open>
  The last element of the traversal that passes the guard and targets the address
  \<open>a\<close>, if there is one, and the contents of the cell \<open>a\<close> once the writes of the
  guard-passing elements have been applied to the memory \<open>m\<close>: the transformed value
  of the last writer, or the old contents where no element writes.
\<close>

definition last_writer ::
  "tile_shape \<Rightarrow> (nat \<Rightarrow> nat \<Rightarrow> bool) \<Rightarrow> int \<Rightarrow> (nat \<Rightarrow> nat \<Rightarrow> int) \<Rightarrow> int
     \<Rightarrow> (nat \<times> nat) option" where
  "last_writer cfg guard dest scatter_offsets a =
     find (\<lambda>e. a = dest + scatter_offsets (fst e) (snd e))
       (rev (passing guard (tile_elements cfg)))"

definition memory_after ::
  "tile_shape \<Rightarrow> (nat \<Rightarrow> nat \<Rightarrow> bool) \<Rightarrow> ('a \<Rightarrow> 'a) \<Rightarrow> int \<Rightarrow> (nat \<Rightarrow> nat \<Rightarrow> int)
     \<Rightarrow> (nat \<Rightarrow> nat \<Rightarrow> 'a) \<Rightarrow> (int \<Rightarrow> 'a) \<Rightarrow> int \<Rightarrow> 'a" where
  "memory_after cfg guard Transform dest scatter_offsets dat m a =
     (case last_writer cfg guard dest scatter_offsets a of
        None \<Rightarrow> m a
      | Some e \<Rightarrow> Transform (dat (fst e) (snd e)))"

text \<open>
  The write predicates of the four \<open>Invoke\<close> overloads, as the conditions of their
  \<open>if\<close> statements read.
\<close>

definition guard_unguarded :: "nat \<Rightarrow> nat \<Rightarrow> bool" where
  "guard_unguarded l v = True"

definition guard_partial :: "tile_shape \<Rightarrow> nat \<Rightarrow> int \<Rightarrow> nat \<Rightarrow> nat \<Rightarrow> bool" where
  "guard_partial cfg t p l v \<longleftrightarrow> tile_rank cfg t l v < p"

definition guard_flags :: "(nat \<Rightarrow> nat \<Rightarrow> bool) \<Rightarrow> nat \<Rightarrow> nat \<Rightarrow> bool" where
  "guard_flags flags l v \<longleftrightarrow> flags l v"

definition guard_flags_partial ::
  "tile_shape \<Rightarrow> nat \<Rightarrow> (nat \<Rightarrow> nat \<Rightarrow> bool) \<Rightarrow> int \<Rightarrow> nat \<Rightarrow> nat \<Rightarrow> bool" where
  "guard_flags_partial cfg t flags p l v \<longleftrightarrow> flags l v \<and> tile_rank cfg t l v < p"

text \<open>
  The write predicate in force in a call of \<open>Scatter\<close>: that of the overload the call
  dispatches to.  Without flags, and with flags:
\<close>

definition Scatter_guard :: "tile_shape \<Rightarrow> nat \<Rightarrow> int \<Rightarrow> nat \<Rightarrow> nat \<Rightarrow> bool" where
  "Scatter_guard cfg t p =
     (if p < int (TILE_SIZE cfg) then guard_partial cfg t p else guard_unguarded)"

definition Scatter_flags_guard ::
  "tile_shape \<Rightarrow> nat \<Rightarrow> (nat \<Rightarrow> nat \<Rightarrow> bool) \<Rightarrow> int \<Rightarrow> nat \<Rightarrow> nat \<Rightarrow> bool" where
  "Scatter_flags_guard cfg t flags p =
     (if p < int (TILE_SIZE cfg) then guard_flags_partial cfg t flags p else guard_flags flags)"

text \<open>No two elements of the tile that pass the guard have the same offset.\<close>

definition collision_free ::
  "tile_shape \<Rightarrow> (nat \<Rightarrow> nat \<Rightarrow> bool) \<Rightarrow> (nat \<Rightarrow> nat \<Rightarrow> int) \<Rightarrow> bool" where
  "collision_free cfg guard scatter_offsets \<longleftrightarrow>
     distinct (map (\<lambda>e. scatter_offsets (fst e) (snd e)) (passing guard (tile_elements cfg)))"

text \<open>The events hold at least one store for the element \<open>(l, v)\<close>.\<close>

definition element_written :: "'a event list \<Rightarrow> nat \<Rightarrow> nat \<Rightarrow> bool" where
  "element_written tr l v \<longleftrightarrow> stores_of_element tr l v \<noteq> []"

text \<open>The state once the dispatch condition of \<open>Scatter\<close> has been evaluated.\<close>

definition log_compare :: "'a lane_state \<Rightarrow> 'a lane_state" where
  "log_compare s = s\<lparr>trace := trace s @ [Compare_tile_size]\<rparr>"

subsection \<open>The tile rank as the specification writes it\<close>

text \<open>
  The specification's formula for the tile rank,
  \<open>(lane_index * vector_size) + (load_index * active_lanes * vector_size) + vec_index\<close>,
  and the two boundary predicates built on it.  These follow the specification's words;
  \<open>tile_rank\<close> above follows the source.
\<close>

definition spec_tile_rank :: "tile_shape \<Rightarrow> nat \<Rightarrow> nat \<Rightarrow> nat \<Rightarrow> int" where
  "spec_tile_rank cfg lane_index load_index vec_index =
     (int lane_index * int (LOAD_VEC_SIZE cfg))
     + (int load_index * int (ACTIVE_THREADS cfg) * int (LOAD_VEC_SIZE cfg))
     + int vec_index"

definition spec_boundary :: "tile_shape \<Rightarrow> nat \<Rightarrow> int \<Rightarrow> nat \<Rightarrow> nat \<Rightarrow> bool" where
  "spec_boundary cfg lane_index p l v \<longleftrightarrow> spec_tile_rank cfg lane_index l v < p"

definition spec_flags_boundary ::
  "tile_shape \<Rightarrow> nat \<Rightarrow> (nat \<Rightarrow> nat \<Rightarrow> bool) \<Rightarrow> int \<Rightarrow> nat \<Rightarrow> nat \<Rightarrow> bool" where
  "spec_flags_boundary cfg lane_index flags p l v \<longleftrightarrow>
     flags l v \<and> spec_tile_rank cfg lane_index l v < p"

text \<open>
  The transform, applied a second time to the values of the guard-passing elements,
  changes nothing.
\<close>

definition idempotent_on ::
  "tile_shape \<Rightarrow> (nat \<Rightarrow> nat \<Rightarrow> bool) \<Rightarrow> ('a \<Rightarrow> 'a) \<Rightarrow> (nat \<Rightarrow> nat \<Rightarrow> 'a) \<Rightarrow> bool" where
  "idempotent_on cfg guard Transform dat \<longleftrightarrow>
     list_all (\<lambda>e. Transform (Transform (dat (fst e) (snd e))) = Transform (dat (fst e) (snd e)))
       (passing guard (tile_elements cfg))"

subsection \<open>Concrete inputs\<close>

text \<open>
  Tile shapes: one lane with two loads of two slots (capacity 4), one lane with two loads
  of eight slots (capacity 16), and two lanes with two loads of four slots (capacity 16).
  A memory of zeros, a lane whose data array holds each element's tile rank, two
  transforms and a flag array.
\<close>

definition shape_2x2 :: tile_shape where
  "shape_2x2 = \<lparr>LOG_LOADS_PER_TILE = 1, LOG_LOAD_VEC_SIZE = 1, ACTIVE_THREADS = 1\<rparr>"

definition shape_16 :: tile_shape where
  "shape_16 = \<lparr>LOG_LOADS_PER_TILE = 1, LOG_LOAD_VEC_SIZE = 3, ACTIVE_THREADS = 1\<rparr>"

definition zero_memory :: "int \<Rightarrow> int" where
  "zero_memory a = 0"

definition double :: "int \<Rightarrow> int" where
  "double x = 2 * x"

definition initial_state :: "tile_shape \<Rightarrow> nat \<Rightarrow> int lane_state" where
  "initial_state cfg t = \<lparr>mem = zero_memory, data = tile_rank cfg t, trace = []\<rparr>"

text \<open>
  The state in which lane \<open>t\<close> starts its call on the memory another lane's call left:
  the data array and the trace are the lane's own.
\<close>

definition next_lane :: "int lane_state \<Rightarrow> tile_shape \<Rightarrow> nat \<Rightarrow> int lane_state" where
  "next_lane s cfg t = \<lparr>mem = mem s, data = tile_rank cfg t, trace = []\<rparr>"

definition odd_slots :: "nat \<Rightarrow> nat \<Rightarrow> bool" where
  "odd_slots l v \<longleftrightarrow> odd v"

definition cap_at_two :: "int \<Rightarrow> int" where
  "cap_at_two x = min x 2"

text \<open>Offsets under which the first slots of the two loads target the same cell.\<close>

definition colliding_offsets :: "nat \<Rightarrow> nat \<Rightarrow> int" where
  "colliding_offsets l v = (if v = 0 then 1 else 0)"

definition shape_2_lanes :: tile_shape where
  "shape_2_lanes = \<lparr>LOG_LOADS_PER_TILE = 1, LOG_LOAD_VEC_SIZE = 2, ACTIVE_THREADS = 2\<rparr>"

section \<open>Tile geometry\<close>

lemma LOADS_PER_TILE_pow: "LOADS_PER_TILE cfg = 2 ^ LOG_LOADS_PER_TILE cfg"
  by (simp add: LOADS_PER_TILE_def push_bit_eq_mult)

lemma LOAD_VEC_SIZE_pow: "LOAD_VEC_SIZE cfg = 2 ^ LOG_LOAD_VEC_SIZE cfg"
  by (simp add: LOAD_VEC_SIZE_def push_bit_eq_mult)

lemma LOADS_PER_TILE_pos: "0 < LOADS_PER_TILE cfg"
  by (simp add: LOADS_PER_TILE_pow)

lemma LOAD_VEC_SIZE_pos: "0 < LOAD_VEC_SIZE cfg"
  by (simp add: LOAD_VEC_SIZE_pow)

lemma TILE_SIZE_product:
  "TILE_SIZE cfg = ACTIVE_THREADS cfg * LOADS_PER_TILE cfg * LOAD_VEC_SIZE cfg"
  by (simp add: TILE_SIZE_def ELEMENTS_PER_THREAD_def LOG_ELEMENTS_PER_THREAD_def
      LOADS_PER_TILE_pow LOAD_VEC_SIZE_pow push_bit_eq_mult power_add)

text \<open>
  Each tile rank of a lane of the tile lies below the capacity, the machine's 32-bit
  computation of it is exact for tiles of fewer than \<open>2^31\<close> elements, and different
  elements of the tile have different ranks.
\<close>

lemma tile_rank_nonneg: "0 \<le> tile_rank cfg t l v"
  by (simp add: tile_rank_def)

lemma tile_rank_less_TILE_SIZE:
  assumes "t < ACTIVE_THREADS cfg" "l < LOADS_PER_TILE cfg" "v < LOAD_VEC_SIZE cfg"
  shows "tile_rank cfg t l v < int (TILE_SIZE cfg)"
proof -
  let ?A = "ACTIVE_THREADS cfg" and ?L = "LOADS_PER_TILE cfg" and ?V = "LOAD_VEC_SIZE cfg"
  from assms(1) have "t * ?V + ?V \<le> ?A * ?V"
    by (metis Suc_leI mult_Suc mult_le_mono1 add.commute)
  with assms(3) have a: "t * ?V + v < ?A * ?V" by linarith
  from assms(2) have "l * (?A * ?V) + ?A * ?V \<le> ?L * (?A * ?V)"
    by (metis Suc_leI mult_Suc mult_le_mono1 add.commute)
  with a have "t * ?V + l * (?A * ?V) + v < ?L * (?A * ?V)" by linarith
  then have "push_bit (LOG_LOAD_VEC_SIZE cfg) t + l * ?A * ?V + v < TILE_SIZE cfg"
    by (simp add: push_bit_eq_mult LOAD_VEC_SIZE_pow [symmetric] TILE_SIZE_product ac_simps)
  then show ?thesis
    unfolding tile_rank_def by (simp only: of_nat_less_iff)
qed

lemma tile_rank_machine_exact:
  assumes t: "unat threadIdx_x < ACTIVE_THREADS cfg"
    and l: "LOAD < LOADS_PER_TILE cfg" and v: "VEC < LOAD_VEC_SIZE cfg"
    and small: "TILE_SIZE cfg < 2 ^ 31"
  shows "tile_rank_machine cfg threadIdx_x LOAD VEC = tile_rank cfg (unat threadIdx_x) LOAD VEC"
proof -
  let ?n = "push_bit (LOG_LOAD_VEC_SIZE cfg) (unat threadIdx_x)
            + (LOAD * ACTIVE_THREADS cfg * LOAD_VEC_SIZE cfg) + VEC"
  have r: "tile_rank cfg (unat threadIdx_x) LOAD VEC = int ?n"
    by (simp add: tile_rank_def)
  from small have "int (TILE_SIZE cfg) < int (2 ^ 31)"
    by (simp only: of_nat_less_iff)
  then have "int (TILE_SIZE cfg) < 2 ^ 31"
    by simp
  with tile_rank_less_TILE_SIZE [OF t l v] have "int ?n < 2 ^ 31"
    unfolding r by (rule less_trans)
  moreover have "- (2 ^ 31) \<le> int ?n"
    by (rule order_trans [of _ 0]) simp_all
  ultimately have s: "signed_take_bit 31 (int ?n) = int ?n"
    by (rule signed_take_bit_int_eq_self [rotated])
  have "push_bit (LOG_LOAD_VEC_SIZE cfg) threadIdx_x
           + word_of_nat (LOAD * ACTIVE_THREADS cfg * LOAD_VEC_SIZE cfg)
           + word_of_nat VEC = (word_of_nat ?n :: 32 word)"
    by (simp add: push_bit_of_nat [symmetric])
  then have "tile_rank_machine cfg threadIdx_x LOAD VEC = sint (word_of_nat ?n :: 32 word)"
    by (simp only: tile_rank_machine_def)
  also have "\<dots> = signed_take_bit 31 (int ?n)"
    by (simp only: signed_of_nat) simp
  finally show ?thesis
    by (simp only: s r)
qed

lemma tile_rank_inj:
  assumes "t < ACTIVE_THREADS cfg" "t' < ACTIVE_THREADS cfg"
    and "v < LOAD_VEC_SIZE cfg" "v' < LOAD_VEC_SIZE cfg"
    and eq: "tile_rank cfg t l v = tile_rank cfg t' l' v'"
  shows "t = t' \<and> l = l' \<and> v = v'"
proof -
  let ?A = "ACTIVE_THREADS cfg" and ?V = "LOAD_VEC_SIZE cfg"
  from eq have e: "(t + l * ?A) * ?V + v = (t' + l' * ?A) * ?V + v'"
    by (simp add: tile_rank_def push_bit_eq_mult LOAD_VEC_SIZE_pow [symmetric] algebra_simps
        flip: of_nat_add of_nat_mult)
  from e assms(3,4) have "((t + l * ?A) * ?V + v) div ?V = ((t' + l' * ?A) * ?V + v') div ?V"
    by simp
  with assms(3,4) have q: "t + l * ?A = t' + l' * ?A"
    by simp
  from e q have vv: "v = v'" by simp
  from q have "(t + l * ?A) mod ?A = (t' + l' * ?A) mod ?A" by simp
  with assms(1,2) have tt: "t = t'" by simp
  from q tt assms(1) have "l = l'" by simp
  with tt vv show ?thesis by simp
qed

section \<open>The three specialisations of \<open>Iterate\<close>\<close>

text \<open>
  On the instances generated from \<open>Iterate<0, 0>\<close> each \<open>Invoke\<close> satisfies the
  equations of the source: the terminating specialisation, the one that moves to the
  next load, and the primary template.
\<close>

lemma Invoke_unguarded_Terminate:
  "Invoke_unguarded cfg Transform (LOADS_PER_TILE cfg) 0 dest scatter_offsets s = s"
  by (subst Invoke_unguarded.simps) simp

lemma Invoke_unguarded_Next_load:
  "LOAD < LOADS_PER_TILE cfg \<Longrightarrow>
   Invoke_unguarded cfg Transform LOAD (LOAD_VEC_SIZE cfg) dest scatter_offsets s =
     Invoke_unguarded cfg Transform (LOAD + 1) 0 dest scatter_offsets s"
  by (subst Invoke_unguarded.simps) simp

lemma Invoke_unguarded_element:
  "LOAD < LOADS_PER_TILE cfg \<Longrightarrow> VEC < LOAD_VEC_SIZE cfg \<Longrightarrow>
   Invoke_unguarded cfg Transform LOAD VEC dest scatter_offsets s =
     Invoke_unguarded cfg Transform LOAD (VEC + 1) dest scatter_offsets
       (transform_and_store Transform dest scatter_offsets LOAD VEC s)"
  by (subst Invoke_unguarded.simps) simp

lemma Invoke_flags_Terminate:
  "Invoke_flags cfg Transform (LOADS_PER_TILE cfg) 0 dest scatter_offsets valid_flags s = s"
  by (subst Invoke_flags.simps) simp

lemma Invoke_flags_Next_load:
  "LOAD < LOADS_PER_TILE cfg \<Longrightarrow>
   Invoke_flags cfg Transform LOAD (LOAD_VEC_SIZE cfg) dest scatter_offsets valid_flags s =
     Invoke_flags cfg Transform (LOAD + 1) 0 dest scatter_offsets valid_flags s"
  by (subst Invoke_flags.simps) simp

lemma Invoke_flags_element:
  "LOAD < LOADS_PER_TILE cfg \<Longrightarrow> VEC < LOAD_VEC_SIZE cfg \<Longrightarrow>
   Invoke_flags cfg Transform LOAD VEC dest scatter_offsets valid_flags s =
     Invoke_flags cfg Transform LOAD (VEC + 1) dest scatter_offsets valid_flags
       (if valid_flags LOAD VEC
        then transform_and_store Transform dest scatter_offsets LOAD VEC s else s)"
  by (subst Invoke_flags.simps) simp

lemma Invoke_partial_Terminate:
  "Invoke_partial cfg t Transform (LOADS_PER_TILE cfg) 0 dest scatter_offsets p s = s"
  by (subst Invoke_partial.simps) simp

lemma Invoke_partial_Next_load:
  "LOAD < LOADS_PER_TILE cfg \<Longrightarrow>
   Invoke_partial cfg t Transform LOAD (LOAD_VEC_SIZE cfg) dest scatter_offsets p s =
     Invoke_partial cfg t Transform (LOAD + 1) 0 dest scatter_offsets p s"
  by (subst Invoke_partial.simps) simp

lemma Invoke_partial_element:
  "LOAD < LOADS_PER_TILE cfg \<Longrightarrow> VEC < LOAD_VEC_SIZE cfg \<Longrightarrow>
   Invoke_partial cfg t Transform LOAD VEC dest scatter_offsets p s =
     Invoke_partial cfg t Transform LOAD (VEC + 1) dest scatter_offsets p
       (if tile_rank cfg t LOAD VEC < p
        then transform_and_store Transform dest scatter_offsets LOAD VEC s else s)"
  by (subst Invoke_partial.simps) simp

lemma Invoke_flags_partial_Terminate:
  "Invoke_flags_partial cfg t Transform (LOADS_PER_TILE cfg) 0 dest scatter_offsets
     valid_flags p s = s"
  by (subst Invoke_flags_partial.simps) simp

lemma Invoke_flags_partial_Next_load:
  "LOAD < LOADS_PER_TILE cfg \<Longrightarrow>
   Invoke_flags_partial cfg t Transform LOAD (LOAD_VEC_SIZE cfg) dest scatter_offsets
     valid_flags p s =
     Invoke_flags_partial cfg t Transform (LOAD + 1) 0 dest scatter_offsets valid_flags p s"
  by (subst Invoke_flags_partial.simps) simp

lemma Invoke_flags_partial_element:
  "LOAD < LOADS_PER_TILE cfg \<Longrightarrow> VEC < LOAD_VEC_SIZE cfg \<Longrightarrow>
   Invoke_flags_partial cfg t Transform LOAD VEC dest scatter_offsets valid_flags p s =
     Invoke_flags_partial cfg t Transform LOAD (VEC + 1) dest scatter_offsets valid_flags p
       (if valid_flags LOAD VEC \<and> tile_rank cfg t LOAD VEC < p
        then transform_and_store Transform dest scatter_offsets LOAD VEC s else s)"
  by (subst Invoke_flags_partial.simps) simp

section \<open>The template recursion is a fold over the tile's elements\<close>

lemma guarded_step_pair:
  "guarded_step guard Transform dest scatter_offsets (l, v) s =
     (if guard l v then transform_and_store Transform dest scatter_offsets l v s else s)"
  by (simp add: guarded_step_def)

lemma elements_from_next_load:
  "LOAD < LOADS_PER_TILE cfg \<Longrightarrow>
   elements_from cfg LOAD (LOAD_VEC_SIZE cfg) = elements_from cfg (Suc LOAD) 0"
  by (simp add: elements_from_def upt_conv_Cons)

lemma elements_from_next_vec:
  "LOAD < LOADS_PER_TILE cfg \<Longrightarrow> VEC < LOAD_VEC_SIZE cfg \<Longrightarrow>
   elements_from cfg LOAD VEC = (LOAD, VEC) # elements_from cfg LOAD (Suc VEC)"
  by (simp add: elements_from_def upt_conv_Cons)

lemma elements_from_end: "elements_from cfg (LOADS_PER_TILE cfg) VEC = []"
  by (simp add: elements_from_def)

lemma tile_elements_from: "tile_elements cfg = elements_from cfg 0 0"
  using LOADS_PER_TILE_pos [of cfg]
  by (simp add: tile_elements_def elements_from_def upt_conv_Cons product_concat_map)

lemma Invoke_flags_fold:
  "LOAD \<le> LOADS_PER_TILE cfg \<Longrightarrow> VEC \<le> LOAD_VEC_SIZE cfg \<Longrightarrow>
   (LOAD = LOADS_PER_TILE cfg \<longrightarrow> VEC = 0) \<Longrightarrow>
   Invoke_flags cfg Transform LOAD VEC dest scatter_offsets valid_flags s =
     fold (guarded_step valid_flags Transform dest scatter_offsets)
       (elements_from cfg LOAD VEC) s"
proof (induction cfg Transform LOAD VEC dest scatter_offsets valid_flags s
    rule: Invoke_flags.induct)
  case (1 cfg Transform LOAD VEC dest scatter_offsets valid_flags s)
  show ?case
  proof (cases "LOAD = LOADS_PER_TILE cfg")
    case True
    with "1.prems" show ?thesis
      by (subst Invoke_flags.simps) (simp add: elements_from_end)
  next
    case False
    with "1.prems" have l: "LOAD < LOADS_PER_TILE cfg" by simp
    show ?thesis
    proof (cases "VEC = LOAD_VEC_SIZE cfg")
      case True
      with l "1.IH"(1) show ?thesis
        by (subst Invoke_flags.simps) (simp add: elements_from_next_load)
    next
      case False
      with "1.prems" have v: "VEC < LOAD_VEC_SIZE cfg" by simp
      with l False "1.IH"(2) show ?thesis
        by (subst Invoke_flags.simps) (simp add: elements_from_next_vec guarded_step_pair)
    qed
  qed
qed

lemma Invoke_unguarded_flags:
  "Invoke_unguarded cfg Transform LOAD VEC dest scatter_offsets s =
   Invoke_flags cfg Transform LOAD VEC dest scatter_offsets (\<lambda>l v. True) s"
proof (induction cfg Transform LOAD VEC dest scatter_offsets s rule: Invoke_unguarded.induct)
  case (1 cfg Transform LOAD VEC dest scatter_offsets s)
  then show ?case
    by (subst Invoke_unguarded.simps, subst Invoke_flags.simps) simp
qed

lemma Invoke_partial_flags:
  "Invoke_partial cfg t Transform LOAD VEC dest scatter_offsets p s =
   Invoke_flags cfg Transform LOAD VEC dest scatter_offsets
     (\<lambda>l v. tile_rank cfg t l v < p) s"
proof (induction cfg t Transform LOAD VEC dest scatter_offsets p s rule: Invoke_partial.induct)
  case (1 cfg t Transform LOAD VEC dest scatter_offsets p s)
  then show ?case
    by (subst Invoke_partial.simps, subst Invoke_flags.simps) simp
qed

lemma Invoke_flags_partial_flags:
  "Invoke_flags_partial cfg t Transform LOAD VEC dest scatter_offsets flags p s =
   Invoke_flags cfg Transform LOAD VEC dest scatter_offsets
     (\<lambda>l v. flags l v \<and> tile_rank cfg t l v < p) s"
proof (induction cfg t Transform LOAD VEC dest scatter_offsets flags p s
    rule: Invoke_flags_partial.induct)
  case (1 cfg t Transform LOAD VEC dest scatter_offsets flags p s)
  then show ?case
    by (subst Invoke_flags_partial.simps, subst Invoke_flags.simps) simp
qed

section \<open>Effect of the traversal on data, trace and memory\<close>

lemma data_transform_and_store:
  "data (transform_and_store Transform dest scatter_offsets l v s) =
     (data s)(l := (data s l)(v := Transform (data s l v)))"
  by (simp add: transform_and_store_def ModifiedStore_St_def Let_def)

lemma mem_transform_and_store:
  "mem (transform_and_store Transform dest scatter_offsets l v s) =
     (mem s)(dest + scatter_offsets l v := Transform (data s l v))"
  by (simp add: transform_and_store_def ModifiedStore_St_def Let_def)

lemma trace_transform_and_store:
  "trace (transform_and_store Transform dest scatter_offsets l v s) =
     trace s @ [Transform_call l v,
                Store_call l v (dest + scatter_offsets l v) (Transform (data s l v))]"
  by (simp add: transform_and_store_def ModifiedStore_St_def Let_def)

lemma data_guarded_step_other:
  "e \<noteq> (l, v) \<Longrightarrow>
   data (guarded_step guard Transform dest scatter_offsets e s) l v = data s l v"
  by (cases e) (auto simp: guarded_step_pair data_transform_and_store)

lemma data_fold_other:
  "(l, v) \<notin> set es \<Longrightarrow>
   data (fold (guarded_step guard Transform dest scatter_offsets) es s) l v = data s l v"
proof (induction es arbitrary: s)
  case Nil
  show ?case by simp
next
  case (Cons e es)
  then have "e \<noteq> (l, v)" and "(l, v) \<notin> set es" by auto
  with Cons.IH show ?case by (simp add: data_guarded_step_other)
qed

lemma data_fold:
  "distinct es \<Longrightarrow>
   data (fold (guarded_step guard Transform dest scatter_offsets) es s) l v =
     (if (l, v) \<in> set es \<and> guard l v then Transform (data s l v) else data s l v)"
proof (induction es arbitrary: s)
  case Nil
  show ?case by simp
next
  case (Cons e es)
  show ?case
  proof (cases "e = (l, v)")
    case True
    with Cons.prems have "(l, v) \<notin> set es" by auto
    then have "data (fold (guarded_step guard Transform dest scatter_offsets) (e # es) s) l v
        = data (guarded_step guard Transform dest scatter_offsets e s) l v"
      by (simp add: data_fold_other)
    with True show ?thesis
      by (simp add: guarded_step_pair data_transform_and_store)
  next
    case False
    with Cons show ?thesis
      by (auto simp: data_guarded_step_other)
  qed
qed

lemma trace_fold:
  "distinct es \<Longrightarrow>
   trace (fold (guarded_step guard Transform dest scatter_offsets) es s) =
     trace s @ concat (map (element_events Transform dest scatter_offsets (data s))
                         (passing guard es))"
proof (induction es arbitrary: s)
  case Nil
  show ?case by (simp add: passing_def)
next
  case (Cons e es)
  let ?s1 = "guarded_step guard Transform dest scatter_offsets e s"
  from Cons.prems have d: "distinct es" and n: "e \<notin> set es" by auto
  have same: "map (element_events Transform dest scatter_offsets (data ?s1)) (passing guard es)
      = map (element_events Transform dest scatter_offsets (data s)) (passing guard es)"
  proof (rule map_cong [OF refl])
    fix e' assume "e' \<in> set (passing guard es)"
    then have "e' \<in> set es" by (simp add: passing_def)
    with n have "e \<noteq> (fst e', snd e')" by auto
    then have "data ?s1 (fst e') (snd e') = data s (fst e') (snd e')"
      by (rule data_guarded_step_other)
    then show "element_events Transform dest scatter_offsets (data ?s1) e'
        = element_events Transform dest scatter_offsets (data s) e'"
      by (simp add: element_events_def)
  qed
  have step: "trace ?s1 = trace s @ concat (map (element_events Transform dest scatter_offsets (data s)) (passing guard [e]))"
    by (simp add: guarded_step_def passing_def element_events_def trace_transform_and_store)
  have "trace (fold (guarded_step guard Transform dest scatter_offsets) (e # es) s)
      = trace ?s1 @ concat (map (element_events Transform dest scatter_offsets (data ?s1)) (passing guard es))"
    using Cons.IH [OF d, of ?s1] by simp
  also have "\<dots> = trace s @ concat (map (element_events Transform dest scatter_offsets (data s)) (passing guard (e # es)))"
    unfolding same step by (simp add: passing_def)
  finally show ?case .
qed

lemma mem_fold:
  "distinct es \<Longrightarrow>
   mem (fold (guarded_step guard Transform dest scatter_offsets) es s) =
     apply_writes (map (element_write Transform dest scatter_offsets (data s)) (passing guard es))
       (mem s)"
proof (induction es arbitrary: s)
  case Nil
  show ?case by (simp add: passing_def apply_writes_def)
next
  case (Cons e es)
  let ?s1 = "guarded_step guard Transform dest scatter_offsets e s"
  from Cons.prems have d: "distinct es" and n: "e \<notin> set es" by auto
  have same: "map (element_write Transform dest scatter_offsets (data ?s1)) (passing guard es)
      = map (element_write Transform dest scatter_offsets (data s)) (passing guard es)"
  proof (rule map_cong [OF refl])
    fix e' assume "e' \<in> set (passing guard es)"
    then have "e' \<in> set es" by (simp add: passing_def)
    with n have "e \<noteq> (fst e', snd e')" by auto
    then have "data ?s1 (fst e') (snd e') = data s (fst e') (snd e')"
      by (rule data_guarded_step_other)
    then show "element_write Transform dest scatter_offsets (data ?s1) e'
        = element_write Transform dest scatter_offsets (data s) e'"
      by (simp add: element_write_def)
  qed
  have step: "mem ?s1 = apply_writes (map (element_write Transform dest scatter_offsets (data s)) (passing guard [e])) (mem s)"
    by (simp add: guarded_step_def passing_def element_write_def mem_transform_and_store
        apply_writes_def)
  have "mem (fold (guarded_step guard Transform dest scatter_offsets) (e # es) s)
      = apply_writes (map (element_write Transform dest scatter_offsets (data ?s1)) (passing guard es)) (mem ?s1)"
    using Cons.IH [OF d, of ?s1] by simp
  also have "\<dots> = apply_writes (map (element_write Transform dest scatter_offsets (data s)) (passing guard (e # es))) (mem s)"
    unfolding same step by (simp add: passing_def apply_writes_def)
  finally show ?case .
qed

text \<open>A cell holds the value of the last write to it, or its old contents.\<close>

lemma apply_writes_last:
  "apply_writes ws m a = (case map_of (rev ws) a of None \<Rightarrow> m a | Some x \<Rightarrow> x)"
proof (induction ws rule: rev_induct)
  case Nil
  show ?case by (simp add: apply_writes_def)
next
  case (snoc w ws)
  have "apply_writes (ws @ [w]) m = (apply_writes ws m)(fst w := snd w)"
    by (simp add: apply_writes_def)
  with snoc show ?case by (cases w) simp
qed

lemma apply_writes_frame:
  "a \<notin> fst ` set ws \<Longrightarrow> apply_writes ws m a = m a"
proof -
  assume "a \<notin> fst ` set ws"
  then have "map_of (rev ws) a = None" by (simp add: map_of_eq_None_iff)
  then show ?thesis by (simp add: apply_writes_last)
qed

lemma apply_writes_hit:
  assumes "(a, x) \<in> set ws" and "\<And>y. (a, y) \<in> set ws \<Longrightarrow> y = x"
  shows "apply_writes ws m a = x"
proof -
  from assms(1) have "a \<in> fst ` set (rev ws)"
    by (simp add: image_iff) (rule bexI [of _ "(a, x)"], simp_all)
  then have "map_of (rev ws) a \<noteq> None"
    by (simp only: map_of_eq_None_iff not_not)
  then obtain y where y: "map_of (rev ws) a = Some y" by blast
  then have "(a, y) \<in> set ws" by (auto dest: map_of_SomeD)
  with assms(2) have "y = x" by simp
  with y show ?thesis by (simp add: apply_writes_last)
qed

lemma apply_writes_idem:
  "apply_writes ws (apply_writes ws m) = apply_writes ws m"
  by (rule ext) (simp add: apply_writes_last split: option.splits)

section \<open>The four \<open>Scatter\<close> shapes\<close>

lemma distinct_tile_elements: "distinct (tile_elements cfg)"
  by (simp add: tile_elements_def distinct_product)

lemma set_tile_elements:
  "(l, v) \<in> set (tile_elements cfg) \<longleftrightarrow> l < LOADS_PER_TILE cfg \<and> v < LOAD_VEC_SIZE cfg"
  by (simp add: tile_elements_def)

lemma Invoke_flags_tile:
  "Invoke_flags cfg Transform 0 0 dest scatter_offsets valid_flags s =
     fold (guarded_step valid_flags Transform dest scatter_offsets) (tile_elements cfg) s"
  by (simp add: Invoke_flags_fold tile_elements_from)

lemma Invoke_flags_result:
  "scatter_result cfg valid_flags Transform dest scatter_offsets []
     s (Invoke_flags cfg Transform 0 0 dest scatter_offsets valid_flags s)"
proof -
  let ?s' = "fold (guarded_step valid_flags Transform dest scatter_offsets) (tile_elements cfg) s"
  have "data ?s' = (\<lambda>l v. if (l, v) \<in> set (tile_elements cfg) \<and> valid_flags l v
                       then Transform (data s l v) else data s l v)"
    by (intro ext) (simp add: data_fold distinct_tile_elements)
  then show ?thesis
    unfolding scatter_result_def Invoke_flags_tile
    by (simp add: trace_fold mem_fold distinct_tile_elements)
qed

lemma Scatter_flags_transform_Invoke:
  "Scatter_flags_transform cfg t Transform dest flags scatter_offsets p s =
     Invoke_flags cfg Transform 0 0 dest scatter_offsets
       (\<lambda>l v. flags l v \<and> (p < int (TILE_SIZE cfg) \<longrightarrow> tile_rank cfg t l v < p))
       (s\<lparr>trace := trace s @ [Compare_tile_size]\<rparr>)"
  by (cases "p < int (TILE_SIZE cfg)")
     (simp_all add: Scatter_flags_transform_def Invoke_flags_partial_flags Let_def)

lemma Scatter_transform_Invoke:
  "Scatter_transform cfg t Transform dest scatter_offsets p s =
     Invoke_flags cfg Transform 0 0 dest scatter_offsets
       (\<lambda>l v. p < int (TILE_SIZE cfg) \<longrightarrow> tile_rank cfg t l v < p)
       (s\<lparr>trace := trace s @ [Compare_tile_size]\<rparr>)"
  by (cases "p < int (TILE_SIZE cfg)")
     (simp_all add: Scatter_transform_def Invoke_partial_flags Invoke_unguarded_flags Let_def)

lemma scatter_result_logged:
  "scatter_result cfg guard Transform dest scatter_offsets [] (s\<lparr>trace := trace s @ pre\<rparr>) s'
   \<Longrightarrow> scatter_result cfg guard Transform dest scatter_offsets pre s s'"
  by (simp add: scatter_result_def cong: if_cong)

lemma Scatter_flags_transform_result:
  "scatter_result cfg
     (\<lambda>l v. flags l v \<and> (p < int (TILE_SIZE cfg) \<longrightarrow> tile_rank cfg t l v < p))
     Transform dest scatter_offsets [Compare_tile_size]
     s (Scatter_flags_transform cfg t Transform dest flags scatter_offsets p s)"
  unfolding Scatter_flags_transform_Invoke
  by (rule scatter_result_logged) (rule Invoke_flags_result)

lemma Scatter_transform_result:
  "scatter_result cfg (\<lambda>l v. p < int (TILE_SIZE cfg) \<longrightarrow> tile_rank cfg t l v < p)
     Transform dest scatter_offsets [Compare_tile_size]
     s (Scatter_transform cfg t Transform dest scatter_offsets p s)"
  unfolding Scatter_transform_Invoke
  by (rule scatter_result_logged) (rule Invoke_flags_result)

lemma Scatter_guard_eq:
  "Scatter_guard cfg t p = (\<lambda>l v. p < int (TILE_SIZE cfg) \<longrightarrow> tile_rank cfg t l v < p)"
  by (auto simp: Scatter_guard_def guard_partial_def guard_unguarded_def fun_eq_iff)

lemma Scatter_flags_guard_eq:
  "Scatter_flags_guard cfg t flags p =
     (\<lambda>l v. flags l v \<and> (p < int (TILE_SIZE cfg) \<longrightarrow> tile_rank cfg t l v < p))"
  by (auto simp: Scatter_flags_guard_def guard_flags_partial_def guard_flags_def fun_eq_iff)

lemma Scatter_transform_guarded:
  "scatter_result cfg (Scatter_guard cfg t p) Transform dest scatter_offsets [Compare_tile_size]
     s (Scatter_transform cfg t Transform dest scatter_offsets p s)"
  unfolding Scatter_guard_eq by (rule Scatter_transform_result)

lemma Scatter_flags_transform_guarded:
  "scatter_result cfg (Scatter_flags_guard cfg t flags p) Transform dest scatter_offsets
     [Compare_tile_size]
     s (Scatter_flags_transform cfg t Transform dest flags scatter_offsets p s)"
  unfolding Scatter_flags_guard_eq by (rule Scatter_flags_transform_result)

lemma set_passing:
  "e \<in> set (passing guard es) \<longleftrightarrow> e \<in> set es \<and> guard (fst e) (snd e)"
  by (simp add: passing_def)

lemma distinct_passing: "distinct es \<Longrightarrow> distinct (passing guard es)"
  by (simp add: passing_def)

lemma stores_of_element_append:
  "stores_of_element (xs @ ys) l v = stores_of_element xs l v @ stores_of_element ys l v"
  by (simp add: stores_of_element_def)

lemma stores_of_element_events:
  "stores_of_element (element_events Transform dest scatter_offsets dat e) l v =
     (if e = (l, v) then [(dest + scatter_offsets l v, Transform (dat l v))] else [])"
  by (cases e) (auto simp: stores_of_element_def element_events_def)

lemma stores_of_element_concat:
  "distinct es \<Longrightarrow>
   stores_of_element (concat (map (element_events Transform dest scatter_offsets dat) es)) l v =
     (if (l, v) \<in> set es then [(dest + scatter_offsets l v, Transform (dat l v))] else [])"
proof (induction es)
  case Nil
  show ?case by (simp add: stores_of_element_def)
next
  case (Cons e es)
  then show ?case
    by (auto simp: stores_of_element_append stores_of_element_events)
qed

lemma events_of_call_result:
  "scatter_result cfg guard Transform dest scatter_offsets pre s s' \<Longrightarrow>
   events_of_call s s' =
     pre @ concat (map (element_events Transform dest scatter_offsets (data s))
                     (passing guard (tile_elements cfg)))"
  by (simp add: scatter_result_def events_of_call_def)

lemma stores_of_element_result:
  assumes "scatter_result cfg guard Transform dest scatter_offsets [Compare_tile_size] s s'"
  shows "stores_of_element (events_of_call s s') l v =
           expected_stores cfg guard Transform dest scatter_offsets (data s) l v"
proof -
  have "stores_of_element [Compare_tile_size :: 'a event] l v = []"
    by (simp add: stores_of_element_def)
  then show ?thesis
    unfolding events_of_call_result [OF assms] stores_of_element_append
    by (simp add: stores_of_element_concat distinct_passing distinct_tile_elements
        set_passing set_tile_elements expected_stores_def)
qed

lemma targeted_iff:
  "targeted cfg guard dest scatter_offsets a \<longleftrightarrow>
     a \<in> fst ` set (map (element_write Transform dest scatter_offsets dat)
                     (passing guard (tile_elements cfg)))"
  by (auto simp: targeted_def list_ex_iff element_write_def image_iff)

lemma mem_frame_result:
  assumes "scatter_result cfg guard Transform dest scatter_offsets pre s s'"
    and "\<not> targeted cfg guard dest scatter_offsets a"
  shows "mem s' a = mem s a"
proof -
  from assms(2) have n: "a \<notin> fst ` set (map (element_write Transform dest scatter_offsets (data s))
                     (passing guard (tile_elements cfg)))"
    by (simp only: targeted_iff [of _ _ _ _ _ Transform "data s"] not_False_eq_True)
  from assms(1) have m: "mem s' = apply_writes
      (map (element_write Transform dest scatter_offsets (data s))
         (passing guard (tile_elements cfg))) (mem s)"
    by (simp add: scatter_result_def)
  show ?thesis unfolding m using n by (rule apply_writes_frame)
qed

lemma mem_hit_result:
  assumes r: "scatter_result cfg guard Transform dest scatter_offsets pre s s'"
    and c: "collision_free cfg guard scatter_offsets"
    and e: "l < LOADS_PER_TILE cfg" "v < LOAD_VEC_SIZE cfg" "guard l v"
  shows "mem s' (dest + scatter_offsets l v) = Transform (data s l v)"
proof -
  let ?es = "passing guard (tile_elements cfg)"
  let ?ws = "map (element_write Transform dest scatter_offsets (data s)) ?es"
  from r have m: "mem s' = apply_writes ?ws (mem s)"
    by (simp add: scatter_result_def)
  from e have in_es: "(l, v) \<in> set ?es"
    by (simp add: set_passing set_tile_elements)
  from c have inj: "inj_on (\<lambda>e. scatter_offsets (fst e) (snd e)) (set ?es)"
    by (simp add: collision_free_def distinct_map)
  have "apply_writes ?ws (mem s) (dest + scatter_offsets l v) = Transform (data s l v)"
  proof (rule apply_writes_hit)
    from in_es show "(dest + scatter_offsets l v, Transform (data s l v)) \<in> set ?ws"
      by (force simp: element_write_def)
  next
    fix y assume "(dest + scatter_offsets l v, y) \<in> set ?ws"
    then obtain e' where e': "e' \<in> set ?es"
      and eq: "dest + scatter_offsets l v = dest + scatter_offsets (fst e') (snd e')"
      and y: "y = Transform (data s (fst e') (snd e'))"
      by (auto simp: element_write_def)
    from eq have "(\<lambda>e. scatter_offsets (fst e) (snd e)) (l, v)
        = (\<lambda>e. scatter_offsets (fst e) (snd e)) e'"
      by simp
    from inj this in_es e' have "(l, v) = e'" by (rule inj_onD)
    with y show "y = Transform (data s l v)" by auto
  qed
  with m show ?thesis by simp
qed

lemma data_result:
  "scatter_result cfg guard Transform dest scatter_offsets pre s s' \<Longrightarrow>
   data s' l v = (if l < LOADS_PER_TILE cfg \<and> v < LOAD_VEC_SIZE cfg \<and> guard l v
                  then Transform (data s l v) else data s l v)"
  by (simp add: scatter_result_def set_tile_elements)

lemma count_Transform_call_events:
  "count_list (element_events Transform dest scatter_offsets dat e) (Transform_call l v) =
     (if e = (l, v) then 1 else 0)"
  by (cases e) (auto simp: element_events_def)

lemma count_Transform_call_concat:
  "distinct es \<Longrightarrow>
   count_list (concat (map (element_events Transform dest scatter_offsets dat) es))
     (Transform_call l v) = (if (l, v) \<in> set es then 1 else 0)"
proof (induction es)
  case Nil
  show ?case by simp
next
  case (Cons e es)
  then show ?case
    by (auto simp: count_Transform_call_events)
qed

lemma count_Compare_concat:
  "count_list (concat (map (element_events Transform dest scatter_offsets dat) es))
     Compare_tile_size = 0"
  by (induction es) (simp_all add: element_events_def)

lemma Scatter_unfold: 
  "Scatter cfg t dest scatter_offsets p s =
     Scatter_transform cfg t NopTransform dest scatter_offsets p s"
  by (simp add: Scatter_def)

lemma Scatter_flags_unfold: 
  "Scatter_flags cfg t dest flags scatter_offsets p s =
     Scatter_flags_transform cfg t NopTransform dest flags scatter_offsets p s"
  by (simp add: Scatter_flags_def)

lemma Scatter_transform_stores:
  "stores_of_element
      (events_of_call s (Scatter_transform cfg t Transform dest scatter_offsets p s)) l v
    = expected_stores cfg (Scatter_guard cfg t p) Transform dest scatter_offsets (data s) l v"
  by (rule stores_of_element_result [OF Scatter_transform_guarded])

lemma Scatter_flags_transform_stores:
  "stores_of_element
      (events_of_call s (Scatter_flags_transform cfg t Transform dest flags scatter_offsets p s))
      l v
    = expected_stores cfg (Scatter_flags_guard cfg t flags p) Transform dest scatter_offsets
        (data s) l v"
  by (rule stores_of_element_result [OF Scatter_flags_transform_guarded])

lemma Scatter_transform_frame:
  "\<not> targeted cfg (Scatter_guard cfg t p) dest scatter_offsets a \<Longrightarrow>
   mem (Scatter_transform cfg t Transform dest scatter_offsets p s) a = mem s a"
  by (rule mem_frame_result [OF Scatter_transform_guarded])

lemma Scatter_flags_transform_frame:
  "\<not> targeted cfg (Scatter_flags_guard cfg t flags p) dest scatter_offsets a \<Longrightarrow>
   mem (Scatter_flags_transform cfg t Transform dest flags scatter_offsets p s) a = mem s a"
  by (rule mem_frame_result [OF Scatter_flags_transform_guarded])

section \<open>The memory after a call\<close>

text \<open>
  The memory a call leaves is the memory it found with the writes of the guard-passing
  elements applied in traversal order; cell by cell, that is the transformed value of the
  last guard-passing element that targets the cell, or the old contents.
\<close>

lemma apply_writes_snoc:
  "apply_writes (ws @ [w]) m = (apply_writes ws m)(fst w := snd w)"
  by (simp add: apply_writes_def)

lemma apply_writes_find:
  "apply_writes (map (element_write Transform dest scatter_offsets dat) es) m a =
     (case find (\<lambda>e. a = dest + scatter_offsets (fst e) (snd e)) (rev es) of
        None \<Rightarrow> m a
      | Some e \<Rightarrow> Transform (dat (fst e) (snd e)))"
proof (induction es rule: rev_induct)
  case Nil
  show ?case by (simp add: apply_writes_def)
next
  case (snoc e es)
  have "apply_writes (map (element_write Transform dest scatter_offsets dat) (es @ [e])) m
      = (apply_writes (map (element_write Transform dest scatter_offsets dat) es) m)
          (dest + scatter_offsets (fst e) (snd e) := Transform (dat (fst e) (snd e)))"
    by (simp add: apply_writes_snoc element_write_def)
  with snoc show ?case by simp
qed

lemma apply_writes_memory_after:
  "apply_writes (guarded_writes cfg guard Transform dest scatter_offsets dat) m a =
     memory_after cfg guard Transform dest scatter_offsets dat m a"
  by (simp add: guarded_writes_def memory_after_def last_writer_def apply_writes_find)

lemma mem_result:
  "scatter_result cfg guard Transform dest scatter_offsets pre s s' \<Longrightarrow>
   mem s' = apply_writes (guarded_writes cfg guard Transform dest scatter_offsets (data s)) (mem s)"
  by (simp add: scatter_result_def guarded_writes_def)

lemma mem_after_result:
  "scatter_result cfg guard Transform dest scatter_offsets pre s s' \<Longrightarrow>
   mem s' a = memory_after cfg guard Transform dest scatter_offsets (data s) (mem s) a"
  by (simp add: mem_result apply_writes_memory_after)

lemma Scatter_transform_writes:
  "mem (Scatter_transform cfg t Transform dest scatter_offsets p s) =
     apply_writes (guarded_writes cfg (Scatter_guard cfg t p) Transform dest scatter_offsets
                     (data s)) (mem s)"
  by (rule mem_result [OF Scatter_transform_guarded])

lemma Scatter_flags_transform_writes:
  "mem (Scatter_flags_transform cfg t Transform dest flags scatter_offsets p s) =
     apply_writes (guarded_writes cfg (Scatter_flags_guard cfg t flags p) Transform dest
                     scatter_offsets (data s)) (mem s)"
  by (rule mem_result [OF Scatter_flags_transform_guarded])

lemma Scatter_transform_cell:
  "mem (Scatter_transform cfg t Transform dest scatter_offsets p s) a =
     memory_after cfg (Scatter_guard cfg t p) Transform dest scatter_offsets (data s) (mem s) a"
  by (rule mem_after_result [OF Scatter_transform_guarded])

lemma Scatter_flags_transform_cell:
  "mem (Scatter_flags_transform cfg t Transform dest flags scatter_offsets p s) a =
     memory_after cfg (Scatter_flags_guard cfg t flags p) Transform dest scatter_offsets
       (data s) (mem s) a"
  by (rule mem_after_result [OF Scatter_flags_transform_guarded])

text \<open>
  The last writer of a cell is an element of the tile that passes the guard and targets
  the cell; there is none exactly for the cells that are not targeted; and on offsets
  without collisions the last writer of an element's target is the element itself.
\<close>

lemma find_Some_set:
  "find P xs = Some x \<Longrightarrow> x \<in> set xs \<and> P x"
  by (induction xs) (auto split: if_splits)

lemma mem_tile_elements:
  "e \<in> set (tile_elements cfg) \<longleftrightarrow>
     fst e < LOADS_PER_TILE cfg \<and> snd e < LOAD_VEC_SIZE cfg"
  by (cases e) (simp add: set_tile_elements)

lemma last_writer_None_iff:
  "last_writer cfg guard dest scatter_offsets a = None \<longleftrightarrow>
     \<not> targeted cfg guard dest scatter_offsets a"
  unfolding last_writer_def targeted_def find_None_iff list_ex_iff set_rev
  by blast

lemma last_writer_Some:
  assumes "last_writer cfg guard dest scatter_offsets a = Some e"
  shows "fst e < LOADS_PER_TILE cfg \<and> snd e < LOAD_VEC_SIZE cfg \<and> guard (fst e) (snd e)
         \<and> a = dest + scatter_offsets (fst e) (snd e)"
proof -
  from assms have "e \<in> set (rev (passing guard (tile_elements cfg)))
      \<and> a = dest + scatter_offsets (fst e) (snd e)"
    unfolding last_writer_def by (rule find_Some_set)
  then show ?thesis
    by (simp add: set_passing mem_tile_elements)
qed

lemma last_writer_collision_free:
  assumes c: "collision_free cfg guard scatter_offsets"
    and e: "l < LOADS_PER_TILE cfg" "v < LOAD_VEC_SIZE cfg" "guard l v"
  shows "last_writer cfg guard dest scatter_offsets (dest + scatter_offsets l v) = Some (l, v)"
proof -
  from e have in_es: "(l, v) \<in> set (passing guard (tile_elements cfg))"
    by (simp add: set_passing set_tile_elements)
  then have "targeted cfg guard dest scatter_offsets (dest + scatter_offsets l v)"
    unfolding targeted_def list_ex_iff by (rule rev_bexI) simp
  then have "last_writer cfg guard dest scatter_offsets (dest + scatter_offsets l v) \<noteq> None"
    by (simp add: last_writer_None_iff)
  then obtain e' where e': "last_writer cfg guard dest scatter_offsets
      (dest + scatter_offsets l v) = Some e'"
    by blast
  from last_writer_Some [OF e']
  have in': "e' \<in> set (passing guard (tile_elements cfg))"
    and eq: "scatter_offsets l v = scatter_offsets (fst e') (snd e')"
    by (simp_all add: set_passing mem_tile_elements)
  from c have inj: "inj_on (\<lambda>e. scatter_offsets (fst e) (snd e))
      (set (passing guard (tile_elements cfg)))"
    by (simp add: collision_free_def distinct_map)
  from eq have "(\<lambda>e. scatter_offsets (fst e) (snd e)) (l, v)
      = (\<lambda>e. scatter_offsets (fst e) (snd e)) e'"
    by simp
  from inj this in_es in' have "(l, v) = e'" by (rule inj_onD)
  with e' show ?thesis by simp
qed

lemma Scatter_flags_guard_full:
  "p = int (TILE_SIZE cfg) \<Longrightarrow> Scatter_flags_guard cfg t flags p = guard_flags flags"
  by (simp add: Scatter_flags_guard_def)

lemma Scatter_flags_guard_partial:
  "p < int (TILE_SIZE cfg) \<Longrightarrow>
   Scatter_flags_guard cfg t flags p = guard_flags_partial cfg t flags p"
  by (simp add: Scatter_flags_guard_def)

section \<open>Which elements are written, and what is left alone\<close>

text \<open>
  Claim C1.  For every call of each of the four \<open>Scatter\<close> shapes and every tile element
  \<open>(l, v)\<close>: the call issues a store for the element exactly when the guard of the call
  holds for it, namely one store of the element's value to
  \<open>dest + scatter_offsets[l][v]\<close>, and no store otherwise.  The guard is that of the
  \<open>Invoke\<close> variant the call dispatches to: nothing (unguarded), \<open>tile_rank <
  partial_tile_size\<close> (boundary), the flag (flag variant), or both (combined variant).
  Every memory cell that no guard-passing element targets keeps its contents from before
  the call.  The memory after the call is the memory before it with the writes of the
  guard-passing elements applied in traversal order: each cell holds the value of the
  last guard-passing element that targets it, or its old contents.
\<close>

theorem Scatter_writes_guarded_elements_only:
  "(stores_of_element
      (events_of_call s (Scatter_transform cfg t Transform dest scatter_offsets p s)) l v
      = expected_stores cfg (Scatter_guard cfg t p) Transform dest scatter_offsets (data s) l v
    \<and> (\<not> targeted cfg (Scatter_guard cfg t p) dest scatter_offsets a \<longrightarrow>
         mem (Scatter_transform cfg t Transform dest scatter_offsets p s) a = mem s a)
    \<and> mem (Scatter_transform cfg t Transform dest scatter_offsets p s)
      = apply_writes (guarded_writes cfg (Scatter_guard cfg t p) Transform dest scatter_offsets
                        (data s)) (mem s)
    \<and> mem (Scatter_transform cfg t Transform dest scatter_offsets p s) a
      = memory_after cfg (Scatter_guard cfg t p) Transform dest scatter_offsets (data s)
          (mem s) a)
   \<and> (stores_of_element
      (events_of_call s (Scatter cfg t dest scatter_offsets p s)) l v
      = expected_stores cfg (Scatter_guard cfg t p) NopTransform dest scatter_offsets (data s) l v
    \<and> (\<not> targeted cfg (Scatter_guard cfg t p) dest scatter_offsets a \<longrightarrow>
         mem (Scatter cfg t dest scatter_offsets p s) a = mem s a)
    \<and> mem (Scatter cfg t dest scatter_offsets p s)
      = apply_writes (guarded_writes cfg (Scatter_guard cfg t p) NopTransform dest scatter_offsets
                        (data s)) (mem s)
    \<and> mem (Scatter cfg t dest scatter_offsets p s) a
      = memory_after cfg (Scatter_guard cfg t p) NopTransform dest scatter_offsets (data s)
          (mem s) a)
   \<and> (stores_of_element
      (events_of_call s (Scatter_flags_transform cfg t Transform dest flags scatter_offsets p s)) l v
      = expected_stores cfg (Scatter_flags_guard cfg t flags p) Transform dest scatter_offsets
          (data s) l v
    \<and> (\<not> targeted cfg (Scatter_flags_guard cfg t flags p) dest scatter_offsets a \<longrightarrow>
         mem (Scatter_flags_transform cfg t Transform dest flags scatter_offsets p s) a = mem s a)
    \<and> mem (Scatter_flags_transform cfg t Transform dest flags scatter_offsets p s)
      = apply_writes (guarded_writes cfg (Scatter_flags_guard cfg t flags p) Transform dest
                        scatter_offsets (data s)) (mem s)
    \<and> mem (Scatter_flags_transform cfg t Transform dest flags scatter_offsets p s) a
      = memory_after cfg (Scatter_flags_guard cfg t flags p) Transform dest scatter_offsets
          (data s) (mem s) a)
   \<and> (stores_of_element
      (events_of_call s (Scatter_flags cfg t dest flags scatter_offsets p s)) l v
      = expected_stores cfg (Scatter_flags_guard cfg t flags p) NopTransform dest scatter_offsets
          (data s) l v
    \<and> (\<not> targeted cfg (Scatter_flags_guard cfg t flags p) dest scatter_offsets a \<longrightarrow>
         mem (Scatter_flags cfg t dest flags scatter_offsets p s) a = mem s a)
    \<and> mem (Scatter_flags cfg t dest flags scatter_offsets p s)
      = apply_writes (guarded_writes cfg (Scatter_flags_guard cfg t flags p) NopTransform dest
                        scatter_offsets (data s)) (mem s)
    \<and> mem (Scatter_flags cfg t dest flags scatter_offsets p s) a
      = memory_after cfg (Scatter_flags_guard cfg t flags p) NopTransform dest scatter_offsets
          (data s) (mem s) a)"
  unfolding Scatter_unfold Scatter_flags_unfold
  by (intro conjI impI Scatter_transform_stores Scatter_flags_transform_stores
      Scatter_transform_frame Scatter_flags_transform_frame
      Scatter_transform_writes Scatter_flags_transform_writes
      Scatter_transform_cell Scatter_flags_transform_cell)

theorem Scatter_writes_guarded_elements_only_witness:
  "\<not> targeted shape_2x2 (Scatter_guard shape_2x2 0 3) 0 (tile_rank shape_2x2 0) 3
   \<and> \<not> targeted shape_2x2 (Scatter_flags_guard shape_2x2 0 odd_slots 3) 0 (tile_rank shape_2x2 0) 3
   \<and> stores_of_element (events_of_call (initial_state shape_2x2 0)
        (Scatter_transform shape_2x2 0 double 0 (tile_rank shape_2x2 0) 3
           (initial_state shape_2x2 0))) 1 0 = [(2, 4)]
   \<and> mem (Scatter_transform shape_2x2 0 double 0 (tile_rank shape_2x2 0) 3
           (initial_state shape_2x2 0)) 3 = mem (initial_state shape_2x2 0) 3
   \<and> mem (Scatter shape_2x2 0 0 (tile_rank shape_2x2 0) 3
           (initial_state shape_2x2 0)) 3 = mem (initial_state shape_2x2 0) 3
   \<and> stores_of_element (events_of_call (initial_state shape_2x2 0)
        (Scatter_flags_transform shape_2x2 0 double 0 odd_slots (tile_rank shape_2x2 0) 3
           (initial_state shape_2x2 0))) 1 0 = []
   \<and> mem (Scatter_flags_transform shape_2x2 0 double 0 odd_slots (tile_rank shape_2x2 0) 3
           (initial_state shape_2x2 0)) 3 = mem (initial_state shape_2x2 0) 3
   \<and> mem (Scatter_flags shape_2x2 0 0 odd_slots (tile_rank shape_2x2 0) 3
           (initial_state shape_2x2 0)) 3 = mem (initial_state shape_2x2 0) 3
   \<and> mem (Scatter_transform shape_2x2 0 double 0 (tile_rank shape_2x2 0) 3
           (initial_state shape_2x2 0)) 2 = 4
   \<and> mem (Scatter shape_2x2 0 0 (tile_rank shape_2x2 0) 3
           (initial_state shape_2x2 0)) 2 = 2
   \<and> mem (Scatter_flags_transform shape_2x2 0 double 0 odd_slots (tile_rank shape_2x2 0) 3
           (initial_state shape_2x2 0)) 1 = 2
   \<and> mem (Scatter_flags shape_2x2 0 0 odd_slots (tile_rank shape_2x2 0) 3
           (initial_state shape_2x2 0)) 1 = 1"
proof -
  have h1: "\<not> targeted shape_2x2 (Scatter_guard shape_2x2 0 3) 0 (tile_rank shape_2x2 0) 3"
    by code_simp
  have h2: "\<not> targeted shape_2x2 (Scatter_flags_guard shape_2x2 0 odd_slots 3) 0
      (tile_rank shape_2x2 0) 3"
    by code_simp
  have e1: "expected_stores shape_2x2 (Scatter_guard shape_2x2 0 3) double 0
      (tile_rank shape_2x2 0) (data (initial_state shape_2x2 0)) 1 0 = [(2, 4)]"
    by code_simp
  have e2: "expected_stores shape_2x2 (Scatter_flags_guard shape_2x2 0 odd_slots 3) double 0
      (tile_rank shape_2x2 0) (data (initial_state shape_2x2 0)) 1 0 = []"
    by code_simp
  have m1: "memory_after shape_2x2 (Scatter_guard shape_2x2 0 3) double 0
      (tile_rank shape_2x2 0) (data (initial_state shape_2x2 0))
      (mem (initial_state shape_2x2 0)) 2 = 4"
    by code_simp
  have m2: "memory_after shape_2x2 (Scatter_guard shape_2x2 0 3) NopTransform 0
      (tile_rank shape_2x2 0) (data (initial_state shape_2x2 0))
      (mem (initial_state shape_2x2 0)) 2 = 2"
    by code_simp
  have m3: "memory_after shape_2x2 (Scatter_flags_guard shape_2x2 0 odd_slots 3) double 0
      (tile_rank shape_2x2 0) (data (initial_state shape_2x2 0))
      (mem (initial_state shape_2x2 0)) 1 = 2"
    by code_simp
  have m4: "memory_after shape_2x2 (Scatter_flags_guard shape_2x2 0 odd_slots 3) NopTransform 0
      (tile_rank shape_2x2 0) (data (initial_state shape_2x2 0))
      (mem (initial_state shape_2x2 0)) 1 = 1"
    by code_simp
  note at3 = Scatter_writes_guarded_elements_only [where s = "initial_state shape_2x2 0"
      and cfg = shape_2x2 and t = 0 and Transform = double and dest = 0
      and scatter_offsets = "tile_rank shape_2x2 0" and p = 3 and l = 1 and v = 0 and a = 3
      and flags = odd_slots]
  note at2 = Scatter_writes_guarded_elements_only [where s = "initial_state shape_2x2 0"
      and cfg = shape_2x2 and t = 0 and Transform = double and dest = 0
      and scatter_offsets = "tile_rank shape_2x2 0" and p = 3 and l = 1 and v = 0 and a = 2
      and flags = odd_slots]
  note at1 = Scatter_writes_guarded_elements_only [where s = "initial_state shape_2x2 0"
      and cfg = shape_2x2 and t = 0 and Transform = double and dest = 0
      and scatter_offsets = "tile_rank shape_2x2 0" and p = 3 and l = 1 and v = 0 and a = 1
      and flags = odd_slots]
  note c3 = at3 [THEN conjunct1, THEN conjunct1, THEN trans, OF e1]
  note c4 = at3 [THEN conjunct1, THEN conjunct2, THEN conjunct1, THEN mp, OF h1]
  note c5 = at3 [THEN conjunct2, THEN conjunct1, THEN conjunct2, THEN conjunct1, THEN mp, OF h1]
  note c6 = at3 [THEN conjunct2, THEN conjunct2, THEN conjunct1, THEN conjunct1, THEN trans,
      OF e2]
  note c7 = at3 [THEN conjunct2, THEN conjunct2, THEN conjunct1, THEN conjunct2,
      THEN conjunct1, THEN mp, OF h2]
  note c8 = at3 [THEN conjunct2, THEN conjunct2, THEN conjunct2, THEN conjunct2,
      THEN conjunct1, THEN mp, OF h2]
  note c9 = at2 [THEN conjunct1, THEN conjunct2, THEN conjunct2, THEN conjunct2, THEN trans,
      OF m1]
  note c10 = at2 [THEN conjunct2, THEN conjunct1, THEN conjunct2, THEN conjunct2,
      THEN conjunct2, THEN trans, OF m2]
  note c11 = at1 [THEN conjunct2, THEN conjunct2, THEN conjunct1, THEN conjunct2,
      THEN conjunct2, THEN conjunct2, THEN trans, OF m3]
  note c12 = at1 [THEN conjunct2, THEN conjunct2, THEN conjunct2, THEN conjunct2,
      THEN conjunct2, THEN conjunct2, THEN trans, OF m4]
  show ?thesis
    by (intro conjI h1 h2 c3 c4 c5 c6 c7 c8 c9 c10 c11 c12)
qed

text \<open>
  Claim C2.  A full-tile call (\<open>partial_tile_size\<close> equal to \<open>TILE_SIZE\<close>) of the
  shape without flags and without transform, on offsets that do not collide: after the
  call the cell \<open>dest + scatter_offsets[LOAD][VEC]\<close> holds the original value
  \<open>data[LOAD][VEC]\<close>, for every element of the tile.
\<close>

theorem Scatter_full_tile_collision_free:
  assumes "collision_free cfg guard_unguarded scatter_offsets"
    and "LOAD < LOADS_PER_TILE cfg" and "VEC < LOAD_VEC_SIZE cfg"
  shows "mem (Scatter cfg t dest scatter_offsets (int (TILE_SIZE cfg)) s)
           (dest + scatter_offsets LOAD VEC) = data s LOAD VEC"
proof -
  have g: "Scatter_guard cfg t (int (TILE_SIZE cfg)) = guard_unguarded"
    by (simp add: Scatter_guard_def)
  have "scatter_result cfg guard_unguarded NopTransform dest scatter_offsets [Compare_tile_size]
     s (Scatter cfg t dest scatter_offsets (int (TILE_SIZE cfg)) s)"
    unfolding Scatter_unfold using Scatter_transform_guarded [of cfg t "int (TILE_SIZE cfg)"]
    by (simp only: g)
  from mem_hit_result [OF this assms(1) assms(2) assms(3)]
  show ?thesis by (simp add: guard_unguarded_def NopTransform_def)
qed

theorem Scatter_full_tile_collision_free_witness:
  "collision_free shape_2x2 guard_unguarded (tile_rank shape_2x2 0)
   \<and> (1::nat) < LOADS_PER_TILE shape_2x2 \<and> (0::nat) < LOAD_VEC_SIZE shape_2x2
   \<and> mem (Scatter shape_2x2 0 0 (tile_rank shape_2x2 0) (int (TILE_SIZE shape_2x2))
            (initial_state shape_2x2 0)) (0 + tile_rank shape_2x2 0 1 0)
       = data (initial_state shape_2x2 0) 1 0"
proof -
  have h1: "collision_free shape_2x2 guard_unguarded (tile_rank shape_2x2 0)"
    by code_simp
  have h2: "(1::nat) < LOADS_PER_TILE shape_2x2"
    by code_simp
  have h3: "(0::nat) < LOAD_VEC_SIZE shape_2x2"
    by code_simp
  from h1 h2 h3 Scatter_full_tile_collision_free [OF h1 h2 h3, where t = 0 and dest = 0
      and s = "initial_state shape_2x2 0"]
  show ?thesis by (intro conjI)
qed

text \<open>
  Claim C3.  In the two \<open>Scatter\<close> shapes that take flags, an element of the tile is
  written if and only if its flag is true when \<open>partial_tile_size\<close> equals
  \<open>TILE_SIZE\<close>, and if and only if its flag is true and its tile rank is strictly
  below \<open>partial_tile_size\<close> when \<open>partial_tile_size\<close> is below \<open>TILE_SIZE\<close>.
  In both cases the memory after the call is the memory before it with the writes of
  exactly those elements applied.
\<close>

theorem Scatter_flags_written_iff:
  assumes "LOAD < LOADS_PER_TILE cfg" and "VEC < LOAD_VEC_SIZE cfg"
  shows
  "(p = int (TILE_SIZE cfg) \<longrightarrow>
      (element_written (events_of_call s
          (Scatter_flags_transform cfg t Transform dest flags scatter_offsets p s)) LOAD VEC
        \<longleftrightarrow> flags LOAD VEC) \<and>
      (element_written (events_of_call s
          (Scatter_flags cfg t dest flags scatter_offsets p s)) LOAD VEC
        \<longleftrightarrow> flags LOAD VEC) \<and>
      mem (Scatter_flags_transform cfg t Transform dest flags scatter_offsets p s)
        = apply_writes (guarded_writes cfg (guard_flags flags) Transform dest scatter_offsets
                          (data s)) (mem s) \<and>
      mem (Scatter_flags cfg t dest flags scatter_offsets p s)
        = apply_writes (guarded_writes cfg (guard_flags flags) NopTransform dest scatter_offsets
                          (data s)) (mem s))
   \<and> (p < int (TILE_SIZE cfg) \<longrightarrow>
      (element_written (events_of_call s
          (Scatter_flags_transform cfg t Transform dest flags scatter_offsets p s)) LOAD VEC
        \<longleftrightarrow> flags LOAD VEC \<and> tile_rank cfg t LOAD VEC < p) \<and>
      (element_written (events_of_call s
          (Scatter_flags cfg t dest flags scatter_offsets p s)) LOAD VEC
        \<longleftrightarrow> flags LOAD VEC \<and> tile_rank cfg t LOAD VEC < p) \<and>
      mem (Scatter_flags_transform cfg t Transform dest flags scatter_offsets p s)
        = apply_writes (guarded_writes cfg (guard_flags_partial cfg t flags p) Transform dest
                          scatter_offsets (data s)) (mem s) \<and>
      mem (Scatter_flags cfg t dest flags scatter_offsets p s)
        = apply_writes (guarded_writes cfg (guard_flags_partial cfg t flags p) NopTransform dest
                          scatter_offsets (data s)) (mem s))"
proof -
  have w: "element_written (events_of_call s
          (Scatter_flags_transform cfg t T dest flags scatter_offsets p s)) LOAD VEC
        \<longleftrightarrow> Scatter_flags_guard cfg t flags p LOAD VEC" for T
    unfolding element_written_def
      stores_of_element_result [OF Scatter_flags_transform_guarded]
    using assms by (simp add: expected_stores_def)
  have m: "mem (Scatter_flags_transform cfg t T dest flags scatter_offsets p s)
        = apply_writes (guarded_writes cfg (Scatter_flags_guard cfg t flags p) T dest
                          scatter_offsets (data s)) (mem s)" for T
    by (rule Scatter_flags_transform_writes)
  show ?thesis
    unfolding Scatter_flags_unfold
  proof (intro conjI impI)
    assume "p = int (TILE_SIZE cfg)"
    then have g: "Scatter_flags_guard cfg t flags p = guard_flags flags"
      by (rule Scatter_flags_guard_full)
    show "element_written (events_of_call s
          (Scatter_flags_transform cfg t Transform dest flags scatter_offsets p s)) LOAD VEC
        \<longleftrightarrow> flags LOAD VEC"
      by (simp add: w g guard_flags_def)
    show "element_written (events_of_call s
          (Scatter_flags_transform cfg t NopTransform dest flags scatter_offsets p s)) LOAD VEC
        \<longleftrightarrow> flags LOAD VEC"
      by (simp add: w g guard_flags_def)
    show "mem (Scatter_flags_transform cfg t Transform dest flags scatter_offsets p s)
        = apply_writes (guarded_writes cfg (guard_flags flags) Transform dest scatter_offsets
                          (data s)) (mem s)"
      by (simp only: m g)
    show "mem (Scatter_flags_transform cfg t NopTransform dest flags scatter_offsets p s)
        = apply_writes (guarded_writes cfg (guard_flags flags) NopTransform dest scatter_offsets
                          (data s)) (mem s)"
      by (simp only: m g)
  next
    assume "p < int (TILE_SIZE cfg)"
    then have g: "Scatter_flags_guard cfg t flags p = guard_flags_partial cfg t flags p"
      by (rule Scatter_flags_guard_partial)
    show "element_written (events_of_call s
          (Scatter_flags_transform cfg t Transform dest flags scatter_offsets p s)) LOAD VEC
        \<longleftrightarrow> flags LOAD VEC \<and> tile_rank cfg t LOAD VEC < p"
      by (simp add: w g guard_flags_partial_def)
    show "element_written (events_of_call s
          (Scatter_flags_transform cfg t NopTransform dest flags scatter_offsets p s)) LOAD VEC
        \<longleftrightarrow> flags LOAD VEC \<and> tile_rank cfg t LOAD VEC < p"
      by (simp add: w g guard_flags_partial_def)
    show "mem (Scatter_flags_transform cfg t Transform dest flags scatter_offsets p s)
        = apply_writes (guarded_writes cfg (guard_flags_partial cfg t flags p) Transform dest
                          scatter_offsets (data s)) (mem s)"
      by (simp only: m g)
    show "mem (Scatter_flags_transform cfg t NopTransform dest flags scatter_offsets p s)
        = apply_writes (guarded_writes cfg (guard_flags_partial cfg t flags p) NopTransform dest
                          scatter_offsets (data s)) (mem s)"
      by (simp only: m g)
  qed
qed

theorem Scatter_flags_written_iff_witness:
  "(1::nat) < LOADS_PER_TILE shape_2x2 \<and> (1::nat) < LOAD_VEC_SIZE shape_2x2
   \<and> (4::int) = int (TILE_SIZE shape_2x2) \<and> (3::int) < int (TILE_SIZE shape_2x2)
   \<and> odd_slots 1 1 \<and> \<not> tile_rank shape_2x2 0 1 1 < 3
   \<and> element_written (events_of_call (initial_state shape_2x2 0)
          (Scatter_flags_transform shape_2x2 0 double 0 odd_slots (tile_rank shape_2x2 0) 4
             (initial_state shape_2x2 0))) 1 1
   \<and> element_written (events_of_call (initial_state shape_2x2 0)
          (Scatter_flags shape_2x2 0 0 odd_slots (tile_rank shape_2x2 0) 4
             (initial_state shape_2x2 0))) 1 1
   \<and> \<not> element_written (events_of_call (initial_state shape_2x2 0)
          (Scatter_flags_transform shape_2x2 0 double 0 odd_slots (tile_rank shape_2x2 0) 3
             (initial_state shape_2x2 0))) 1 1
   \<and> \<not> element_written (events_of_call (initial_state shape_2x2 0)
          (Scatter_flags shape_2x2 0 0 odd_slots (tile_rank shape_2x2 0) 3
             (initial_state shape_2x2 0))) 1 1
   \<and> map (mem (Scatter_flags_transform shape_2x2 0 double 0 odd_slots (tile_rank shape_2x2 0) 4
             (initial_state shape_2x2 0))) [0, 1, 2, 3] = [0, 2, 0, 6]
   \<and> map (mem (Scatter_flags shape_2x2 0 0 odd_slots (tile_rank shape_2x2 0) 4
             (initial_state shape_2x2 0))) [0, 1, 2, 3] = [0, 1, 0, 3]
   \<and> map (mem (Scatter_flags_transform shape_2x2 0 double 0 odd_slots (tile_rank shape_2x2 0) 3
             (initial_state shape_2x2 0))) [0, 1, 2, 3] = [0, 2, 0, 0]
   \<and> map (mem (Scatter_flags shape_2x2 0 0 odd_slots (tile_rank shape_2x2 0) 3
             (initial_state shape_2x2 0))) [0, 1, 2, 3] = [0, 1, 0, 0]"
proof -
  have h1: "(1::nat) < LOADS_PER_TILE shape_2x2"
    by code_simp
  have h2: "(1::nat) < LOAD_VEC_SIZE shape_2x2"
    by code_simp
  have full: "(4::int) = int (TILE_SIZE shape_2x2)"
    by code_simp
  have part: "(3::int) < int (TILE_SIZE shape_2x2)"
    by code_simp
  have f: "odd_slots 1 1"
    by code_simp
  have r: "\<not> tile_rank shape_2x2 0 1 1 < 3"
    by code_simp
  have v1: "map (apply_writes (guarded_writes shape_2x2 (guard_flags odd_slots) double 0
      (tile_rank shape_2x2 0) (data (initial_state shape_2x2 0)))
      (mem (initial_state shape_2x2 0))) [0, 1, 2, 3] = [0, 2, 0, 6]"
    by code_simp
  have v2: "map (apply_writes (guarded_writes shape_2x2 (guard_flags odd_slots) NopTransform 0
      (tile_rank shape_2x2 0) (data (initial_state shape_2x2 0)))
      (mem (initial_state shape_2x2 0))) [0, 1, 2, 3] = [0, 1, 0, 3]"
    by code_simp
  have v3: "map (apply_writes (guarded_writes shape_2x2
      (guard_flags_partial shape_2x2 0 odd_slots 3) double 0
      (tile_rank shape_2x2 0) (data (initial_state shape_2x2 0)))
      (mem (initial_state shape_2x2 0))) [0, 1, 2, 3] = [0, 2, 0, 0]"
    by code_simp
  have v4: "map (apply_writes (guarded_writes shape_2x2
      (guard_flags_partial shape_2x2 0 odd_slots 3) NopTransform 0
      (tile_rank shape_2x2 0) (data (initial_state shape_2x2 0)))
      (mem (initial_state shape_2x2 0))) [0, 1, 2, 3] = [0, 1, 0, 0]"
    by code_simp
  note at_full = Scatter_flags_written_iff [OF h1 h2, where p = 4 and t = 0
      and s = "initial_state shape_2x2 0"
      and Transform = double and dest = 0 and flags = odd_slots
      and scatter_offsets = "tile_rank shape_2x2 0", THEN conjunct1, THEN mp, OF full]
  note at_part = Scatter_flags_written_iff [OF h1 h2, where p = 3 and t = 0
      and s = "initial_state shape_2x2 0"
      and Transform = double and dest = 0 and flags = odd_slots
      and scatter_offsets = "tile_rank shape_2x2 0", THEN conjunct2, THEN mp, OF part]
  note a1 = at_full [THEN conjunct1, THEN iffD2, OF f]
  note a2 = at_full [THEN conjunct2, THEN conjunct1, THEN iffD2, OF f]
  from at_part [THEN conjunct1] r
  have b1: "\<not> element_written (events_of_call (initial_state shape_2x2 0)
          (Scatter_flags_transform shape_2x2 0 double 0 odd_slots (tile_rank shape_2x2 0) 3
             (initial_state shape_2x2 0))) 1 1"
    by blast
  from at_part [THEN conjunct2, THEN conjunct1] r
  have b2: "\<not> element_written (events_of_call (initial_state shape_2x2 0)
          (Scatter_flags shape_2x2 0 0 odd_slots (tile_rank shape_2x2 0) 3
             (initial_state shape_2x2 0))) 1 1"
    by blast
  note w1 = v1 [folded at_full [THEN conjunct2, THEN conjunct2, THEN conjunct1]]
  note w2 = v2 [folded at_full [THEN conjunct2, THEN conjunct2, THEN conjunct2]]
  note w3 = v3 [folded at_part [THEN conjunct2, THEN conjunct2, THEN conjunct1]]
  note w4 = v4 [folded at_part [THEN conjunct2, THEN conjunct2, THEN conjunct2]]
  show ?thesis
    by (intro conjI h1 h2 full part f r a1 a2 b1 b2 w1 w2 w3 w4)
qed

text \<open>
  The memory after a call, cell by cell: the value of the last guard-passing element of
  the traversal that targets the cell, or the old contents.  Elements of one lane that
  share an offset are thus resolved in traversal order.
\<close>

lemma Scatter_transform_memory:
  "mem (Scatter_transform cfg t Transform dest scatter_offsets p s) a =
     (case map_of (rev (map (element_write Transform dest scatter_offsets (data s))
                          (passing (Scatter_guard cfg t p) (tile_elements cfg)))) a of
        None \<Rightarrow> mem s a
      | Some x \<Rightarrow> x)"
  using Scatter_transform_guarded [of cfg t p Transform dest scatter_offsets s]
  by (simp add: scatter_result_def apply_writes_last)

lemma Scatter_flags_transform_memory:
  "mem (Scatter_flags_transform cfg t Transform dest flags scatter_offsets p s) a =
     (case map_of (rev (map (element_write Transform dest scatter_offsets (data s))
                          (passing (Scatter_flags_guard cfg t flags p) (tile_elements cfg)))) a of
        None \<Rightarrow> mem s a
      | Some x \<Rightarrow> x)"
  using Scatter_flags_transform_guarded [of cfg t flags p Transform dest scatter_offsets s]
  by (simp add: scatter_result_def apply_writes_last)

text \<open>With a partial tile size of zero or less the boundary guard admits no element.\<close>

lemma no_element_below_zero:
  "p \<le> 0 \<Longrightarrow> \<not> guard_partial cfg t p l v"
  using tile_rank_nonneg [of cfg t l v] by (simp add: guard_partial_def)

section \<open>Dispatch\<close>

text \<open>
  Claim C4.  Each of the four \<open>Scatter\<close> shapes evaluates the comparison of
  \<open>partial_tile_size\<close> against \<open>TILE_SIZE\<close> exactly once per call; when
  \<open>partial_tile_size\<close> is strictly smaller it runs the boundary-checking \<open>Invoke\<close>
  variant (with the flags when they are supplied), and otherwise the corresponding
  variant without boundary check.
\<close>

theorem Scatter_single_dispatch:
  "(Scatter_transform cfg t Transform dest scatter_offsets p s =
      (if p < int (TILE_SIZE cfg)
       then Invoke_partial cfg t Transform 0 0 dest scatter_offsets p (log_compare s)
       else Invoke_unguarded cfg Transform 0 0 dest scatter_offsets (log_compare s))
    \<and> count_list (events_of_call s
         (Scatter_transform cfg t Transform dest scatter_offsets p s)) Compare_tile_size = 1)
   \<and> (Scatter cfg t dest scatter_offsets p s =
      (if p < int (TILE_SIZE cfg)
       then Invoke_partial cfg t NopTransform 0 0 dest scatter_offsets p (log_compare s)
       else Invoke_unguarded cfg NopTransform 0 0 dest scatter_offsets (log_compare s))
    \<and> count_list (events_of_call s
         (Scatter cfg t dest scatter_offsets p s)) Compare_tile_size = 1)
   \<and> (Scatter_flags_transform cfg t Transform dest flags scatter_offsets p s =
      (if p < int (TILE_SIZE cfg)
       then Invoke_flags_partial cfg t Transform 0 0 dest scatter_offsets flags p (log_compare s)
       else Invoke_flags cfg Transform 0 0 dest scatter_offsets flags (log_compare s))
    \<and> count_list (events_of_call s
         (Scatter_flags_transform cfg t Transform dest flags scatter_offsets p s))
         Compare_tile_size = 1)
   \<and> (Scatter_flags cfg t dest flags scatter_offsets p s =
      (if p < int (TILE_SIZE cfg)
       then Invoke_flags_partial cfg t NopTransform 0 0 dest scatter_offsets flags p (log_compare s)
       else Invoke_flags cfg NopTransform 0 0 dest scatter_offsets flags (log_compare s))
    \<and> count_list (events_of_call s
         (Scatter_flags cfg t dest flags scatter_offsets p s)) Compare_tile_size = 1)"
proof -
  have a: "count_list (events_of_call s
         (Scatter_transform cfg t T dest scatter_offsets p s)) Compare_tile_size = 1" for T
    unfolding events_of_call_result [OF Scatter_transform_guarded]
    by (simp add: count_Compare_concat)
  have b: "count_list (events_of_call s
         (Scatter_flags_transform cfg t T dest flags scatter_offsets p s)) Compare_tile_size = 1"
    for T
    unfolding events_of_call_result [OF Scatter_flags_transform_guarded]
    by (simp add: count_Compare_concat)
  have c: "Scatter_transform cfg t T dest scatter_offsets p s =
      (if p < int (TILE_SIZE cfg)
       then Invoke_partial cfg t T 0 0 dest scatter_offsets p (log_compare s)
       else Invoke_unguarded cfg T 0 0 dest scatter_offsets (log_compare s))" for T
    by (simp add: Scatter_transform_def log_compare_def Let_def)
  have d: "Scatter_flags_transform cfg t T dest flags scatter_offsets p s =
      (if p < int (TILE_SIZE cfg)
       then Invoke_flags_partial cfg t T 0 0 dest scatter_offsets flags p (log_compare s)
       else Invoke_flags cfg T 0 0 dest scatter_offsets flags (log_compare s))" for T
    by (simp add: Scatter_flags_transform_def log_compare_def Let_def)
  show ?thesis
    unfolding Scatter_unfold Scatter_flags_unfold
    by (intro conjI) (rule a b c d)+
qed

theorem Scatter_single_dispatch_witness:
  "count_list (events_of_call (initial_state shape_2x2 0)
      (Scatter_transform shape_2x2 0 double 0 (tile_rank shape_2x2 0) 3
         (initial_state shape_2x2 0))) Compare_tile_size = 1
   \<and> Scatter_transform shape_2x2 0 double 0 (tile_rank shape_2x2 0) 3
         (initial_state shape_2x2 0) =
       Invoke_partial shape_2x2 0 double 0 0 0 (tile_rank shape_2x2 0) 3
         (log_compare (initial_state shape_2x2 0))
   \<and> Scatter_flags shape_2x2 0 0 odd_slots (tile_rank shape_2x2 0) 4
         (initial_state shape_2x2 0) =
       Invoke_flags shape_2x2 NopTransform 0 0 0 (tile_rank shape_2x2 0) odd_slots
         (log_compare (initial_state shape_2x2 0))"
proof -
  have part: "(3::int) < int (TILE_SIZE shape_2x2)"
    by code_simp
  have full: "\<not> (4::int) < int (TILE_SIZE shape_2x2)"
    by code_simp
  note at_part = Scatter_single_dispatch [where p = 3 and t = 0
      and s = "initial_state shape_2x2 0" and cfg = shape_2x2
      and Transform = double and dest = 0 and flags = odd_slots
      and scatter_offsets = "tile_rank shape_2x2 0", unfolded if_P [OF part]]
  note at_full = Scatter_single_dispatch [where p = 4 and t = 0
      and s = "initial_state shape_2x2 0" and cfg = shape_2x2
      and Transform = double and dest = 0 and flags = odd_slots
      and scatter_offsets = "tile_rank shape_2x2 0", unfolded if_not_P [OF full]]
  note a = at_part [THEN conjunct1, THEN conjunct2]
  note b = at_part [THEN conjunct1, THEN conjunct1]
  note c = at_full [THEN conjunct2, THEN conjunct2, THEN conjunct2, THEN conjunct1]
  show ?thesis by (intro conjI a b c)
qed

section \<open>The tile rank\<close>

lemma tile_rank_spec: "tile_rank cfg t l v = spec_tile_rank cfg t l v"
  by (simp add: tile_rank_def spec_tile_rank_def push_bit_eq_mult LOAD_VEC_SIZE_pow)

text \<open>
  Claim C5.  The tile rank that the boundary guard compares with \<open>partial_tile_size\<close>
  is \<open>lane_index * vector_size + load_index * active_lanes * vector_size + vec_index\<close>,
  for every element, and it serves no other purpose: both boundary-checking variants
  are the flag-guarded variant run on the outcome of that comparison (conjoined with the
  flags when there are flags), from every position of the traversal.
\<close>

theorem tile_rank_only_compared:
  "tile_rank cfg t LOAD VEC = spec_tile_rank cfg t LOAD VEC
   \<and> guard_partial cfg t p = spec_boundary cfg t p
   \<and> guard_flags_partial cfg t flags p = spec_flags_boundary cfg t flags p
   \<and> Invoke_partial cfg t Transform LOAD VEC dest scatter_offsets p s =
       Invoke_flags cfg Transform LOAD VEC dest scatter_offsets (spec_boundary cfg t p) s
   \<and> Invoke_flags_partial cfg t Transform LOAD VEC dest scatter_offsets flags p s =
       Invoke_flags cfg Transform LOAD VEC dest scatter_offsets
         (spec_flags_boundary cfg t flags p) s"
proof -
  have "(\<lambda>l v. tile_rank cfg t l v < p) = spec_boundary cfg t p"
    by (simp add: fun_eq_iff spec_boundary_def tile_rank_spec)
  moreover have "(\<lambda>l v. flags l v \<and> tile_rank cfg t l v < p) = spec_flags_boundary cfg t flags p"
    by (simp add: fun_eq_iff spec_flags_boundary_def tile_rank_spec)
  ultimately show ?thesis
    by (simp add: tile_rank_spec Invoke_partial_flags Invoke_flags_partial_flags
        guard_partial_def guard_flags_partial_def fun_eq_iff)
qed

theorem tile_rank_only_compared_witness:
  "tile_rank shape_2_lanes 1 1 2 = 14
   \<and> spec_boundary shape_2_lanes 1 14 1 1 \<and> \<not> spec_boundary shape_2_lanes 1 14 1 2
   \<and> Invoke_partial shape_2_lanes 1 double 0 0 0 (tile_rank shape_2_lanes 1) 14
         (initial_state shape_2_lanes 1) =
       Invoke_flags shape_2_lanes double 0 0 0 (tile_rank shape_2_lanes 1)
         (spec_boundary shape_2_lanes 1 14) (initial_state shape_2_lanes 1)"
proof -
  have r: "spec_tile_rank shape_2_lanes 1 1 2 = 14"
    by code_simp
  have b: "spec_boundary shape_2_lanes 1 14 1 1" "\<not> spec_boundary shape_2_lanes 1 14 1 2"
    by code_simp+
  from tile_rank_only_compared [where cfg = shape_2_lanes and t = 1 and LOAD = 1 and VEC = 2]
  have "tile_rank shape_2_lanes 1 1 2 = 14"
    by (simp only: r; blast)
  with b tile_rank_only_compared [where cfg = shape_2_lanes and t = 1 and LOAD = 0 and VEC = 0
      and Transform = double and dest = 0 and scatter_offsets = "tile_rank shape_2_lanes 1"
      and p = 14 and s = "initial_state shape_2_lanes 1"]
  show ?thesis by blast
qed

section \<open>The transform\<close>

lemma count_Transform_call_result:
  assumes "scatter_result cfg guard Transform dest scatter_offsets [Compare_tile_size] s s'"
  shows "count_list (events_of_call s s') (Transform_call l v) =
           (if l < LOADS_PER_TILE cfg \<and> v < LOAD_VEC_SIZE cfg \<and> guard l v then 1 else 0)"
  unfolding events_of_call_result [OF assms]
  by (simp add: count_Transform_call_concat distinct_passing distinct_tile_elements
      set_passing set_tile_elements)

text \<open>
  Claim C6.  When a transform is supplied, the call consists of the dispatch comparison
  followed, for each guard-passing element in traversal order, by the transform call on
  \<open>data[l][v]\<close> and immediately after it the store of the transformed value for that
  element; the transform is called exactly once for each guard-passing element and not
  at all for any other; after the call \<open>data[l][v]\<close> holds the transformed value for
  the guard-passing elements and is unchanged elsewhere; and the memory after the call is
  the memory before it with the transformed values written in traversal order, so that
  every written cell holds the transformed value of the last guard-passing element that
  targets it.
\<close>

theorem Transform_once_in_place_before_store:
  "(events_of_call s (Scatter_transform cfg t Transform dest scatter_offsets p s) =
      Compare_tile_size #
      concat (map (element_events Transform dest scatter_offsets (data s))
                (passing (Scatter_guard cfg t p) (tile_elements cfg)))
    \<and> count_list (events_of_call s (Scatter_transform cfg t Transform dest scatter_offsets p s))
        (Transform_call l v) =
        (if l < LOADS_PER_TILE cfg \<and> v < LOAD_VEC_SIZE cfg \<and> Scatter_guard cfg t p l v
         then 1 else 0)
    \<and> data (Scatter_transform cfg t Transform dest scatter_offsets p s) l v =
        (if l < LOADS_PER_TILE cfg \<and> v < LOAD_VEC_SIZE cfg \<and> Scatter_guard cfg t p l v
         then Transform (data s l v) else data s l v)
    \<and> mem (Scatter_transform cfg t Transform dest scatter_offsets p s)
      = apply_writes (guarded_writes cfg (Scatter_guard cfg t p) Transform dest scatter_offsets
                        (data s)) (mem s)
    \<and> mem (Scatter_transform cfg t Transform dest scatter_offsets p s) a
      = memory_after cfg (Scatter_guard cfg t p) Transform dest scatter_offsets (data s)
          (mem s) a)
   \<and> (events_of_call s (Scatter_flags_transform cfg t Transform dest flags scatter_offsets p s) =
      Compare_tile_size #
      concat (map (element_events Transform dest scatter_offsets (data s))
                (passing (Scatter_flags_guard cfg t flags p) (tile_elements cfg)))
    \<and> count_list
        (events_of_call s (Scatter_flags_transform cfg t Transform dest flags scatter_offsets p s))
        (Transform_call l v) =
        (if l < LOADS_PER_TILE cfg \<and> v < LOAD_VEC_SIZE cfg \<and> Scatter_flags_guard cfg t flags p l v
         then 1 else 0)
    \<and> data (Scatter_flags_transform cfg t Transform dest flags scatter_offsets p s) l v =
        (if l < LOADS_PER_TILE cfg \<and> v < LOAD_VEC_SIZE cfg \<and> Scatter_flags_guard cfg t flags p l v
         then Transform (data s l v) else data s l v)
    \<and> mem (Scatter_flags_transform cfg t Transform dest flags scatter_offsets p s)
      = apply_writes (guarded_writes cfg (Scatter_flags_guard cfg t flags p) Transform dest
                        scatter_offsets (data s)) (mem s)
    \<and> mem (Scatter_flags_transform cfg t Transform dest flags scatter_offsets p s) a
      = memory_after cfg (Scatter_flags_guard cfg t flags p) Transform dest scatter_offsets
          (data s) (mem s) a)"
proof -
  note r1 = Scatter_transform_guarded [of cfg t p Transform dest scatter_offsets s]
  note r2 = Scatter_flags_transform_guarded [of cfg t flags p Transform dest scatter_offsets s]
  have e1: "events_of_call s (Scatter_transform cfg t Transform dest scatter_offsets p s) =
      Compare_tile_size #
      concat (map (element_events Transform dest scatter_offsets (data s))
                (passing (Scatter_guard cfg t p) (tile_elements cfg)))"
    using events_of_call_result [OF r1] by simp
  have e2: "events_of_call s
        (Scatter_flags_transform cfg t Transform dest flags scatter_offsets p s) =
      Compare_tile_size #
      concat (map (element_events Transform dest scatter_offsets (data s))
                (passing (Scatter_flags_guard cfg t flags p) (tile_elements cfg)))"
    using events_of_call_result [OF r2] by simp
  show ?thesis
    by (intro conjI e1 e2 count_Transform_call_result [OF r1] count_Transform_call_result [OF r2]
        data_result [OF r1] data_result [OF r2]
        Scatter_transform_writes Scatter_flags_transform_writes
        Scatter_transform_cell Scatter_flags_transform_cell)
qed

theorem Transform_once_in_place_before_store_witness:
  "(1::nat) < LOADS_PER_TILE shape_2x2 \<and> (0::nat) < LOAD_VEC_SIZE shape_2x2
   \<and> Scatter_guard shape_2x2 0 3 1 0 \<and> Scatter_guard shape_2x2 0 3 0 0
   \<and> 0 + colliding_offsets 0 0 = 1 \<and> 0 + colliding_offsets 1 0 = 1
   \<and> last_writer shape_2x2 (Scatter_guard shape_2x2 0 3) 0 colliding_offsets 1 = Some (1, 0)
   \<and> double (data (initial_state shape_2x2 0) 1 0) = 4
   \<and> mem (Scatter_transform shape_2x2 0 double 0 colliding_offsets 3
            (initial_state shape_2x2 0)) 1 = 4
   \<and> map (mem (Scatter_transform shape_2x2 0 double 0 colliding_offsets 3
            (initial_state shape_2x2 0))) [0, 1, 2, 3] = [2, 4, 0, 0]
   \<and> data (Scatter_transform shape_2x2 0 double 0 colliding_offsets 3
            (initial_state shape_2x2 0)) 1 0
       = double (data (initial_state shape_2x2 0) 1 0)
   \<and> count_list (events_of_call (initial_state shape_2x2 0)
          (Scatter_transform shape_2x2 0 double 0 colliding_offsets 3
            (initial_state shape_2x2 0))) (Transform_call 1 0) = 1"
proof -
  have h2: "(1::nat) < LOADS_PER_TILE shape_2x2"
    by code_simp
  have h3: "(0::nat) < LOAD_VEC_SIZE shape_2x2"
    by code_simp
  have h4: "Scatter_guard shape_2x2 0 3 1 0"
    by code_simp
  have h5: "Scatter_guard shape_2x2 0 3 0 0"
    by code_simp
  have o1: "0 + colliding_offsets 0 0 = 1"
    by code_simp
  have o2: "0 + colliding_offsets 1 0 = 1"
    by code_simp
  have lw: "last_writer shape_2x2 (Scatter_guard shape_2x2 0 3) 0 colliding_offsets 1
      = Some (1, 0)"
    by code_simp
  have dv: "double (data (initial_state shape_2x2 0) 1 0) = 4"
    by code_simp
  have ma: "memory_after shape_2x2 (Scatter_guard shape_2x2 0 3) double 0 colliding_offsets
      (data (initial_state shape_2x2 0)) (mem (initial_state shape_2x2 0)) 1 = 4"
    by code_simp
  have aw: "map (apply_writes (guarded_writes shape_2x2 (Scatter_guard shape_2x2 0 3) double 0
      colliding_offsets (data (initial_state shape_2x2 0)))
      (mem (initial_state shape_2x2 0))) [0, 1, 2, 3] = [2, 4, 0, 0]"
    by code_simp
  have g: "(1::nat) < LOADS_PER_TILE shape_2x2 \<and> (0::nat) < LOAD_VEC_SIZE shape_2x2
      \<and> Scatter_guard shape_2x2 0 3 1 0"
    by (intro conjI h2 h3 h4)
  note inst = Transform_once_in_place_before_store [where cfg = shape_2x2 and t = 0 and p = 3
      and Transform = double and dest = 0 and scatter_offsets = colliding_offsets
      and s = "initial_state shape_2x2 0" and l = 1 and v = 0 and flags = odd_slots and a = 1,
      unfolded if_P [OF g]]
  note c = inst [THEN conjunct1, THEN conjunct2, THEN conjunct1]
  note d = inst [THEN conjunct1, THEN conjunct2, THEN conjunct2, THEN conjunct1]
  note w = aw [folded inst [THEN conjunct1, THEN conjunct2, THEN conjunct2, THEN conjunct2,
      THEN conjunct1]]
  note m = inst [THEN conjunct1, THEN conjunct2, THEN conjunct2, THEN conjunct2,
      THEN conjunct2, THEN trans, OF ma]
  show ?thesis by (intro conjI h2 h3 h4 h5 o1 o2 lw dv m w d c)
qed

section \<open>Repeating a call\<close>

lemma second_call_writes:
  assumes r: "scatter_result cfg guard Transform dest scatter_offsets pre s s'"
    and i: "idempotent_on cfg guard Transform (data s)"
  shows "map (element_write Transform dest scatter_offsets (data s'))
           (passing guard (tile_elements cfg)) =
         map (element_write Transform dest scatter_offsets (data s))
           (passing guard (tile_elements cfg))"
proof (rule map_cong [OF refl])
  fix e assume e: "e \<in> set (passing guard (tile_elements cfg))"
  then have "(fst e, snd e) \<in> set (tile_elements cfg)" and "guard (fst e) (snd e)"
    by (simp_all add: set_passing)
  with r have "data s' (fst e) (snd e) = Transform (data s (fst e) (snd e))"
    by (simp add: scatter_result_def)
  moreover from i e
  have "Transform (Transform (data s (fst e) (snd e))) = Transform (data s (fst e) (snd e))"
    by (simp add: idempotent_on_def list_all_iff)
  ultimately show "element_write Transform dest scatter_offsets (data s') e
      = element_write Transform dest scatter_offsets (data s) e"
    by (simp add: element_write_def)
qed

lemma repeated_result_mem:
  assumes r1: "scatter_result cfg guard Transform dest scatter_offsets pre s s1"
    and r2: "scatter_result cfg guard Transform dest scatter_offsets pre s1' s2"
    and m: "mem s1' = mem s1"
    and w: "map (element_write Transform dest scatter_offsets (data s1'))
              (passing guard (tile_elements cfg)) =
            map (element_write Transform dest scatter_offsets (data s))
              (passing guard (tile_elements cfg))"
  shows "mem s2 = mem s1"
proof -
  let ?ws = "map (element_write Transform dest scatter_offsets (data s))
               (passing guard (tile_elements cfg))"
  from r1 have m1: "mem s1 = apply_writes ?ws (mem s)"
    by (simp add: scatter_result_def)
  from r2 have "mem s2 = apply_writes (map (element_write Transform dest scatter_offsets (data s1'))
               (passing guard (tile_elements cfg))) (mem s1')"
    by (simp add: scatter_result_def)
  then have "mem s2 = apply_writes ?ws (mem s1)"
    by (simp only: w m)
  then show ?thesis
    by (simp add: m1 apply_writes_idem)
qed

lemma idempotent_on_NopTransform: "idempotent_on cfg guard NopTransform dat"
  by (simp add: idempotent_on_def NopTransform_def list_all_iff)

lemma Scatter_transform_twice:
  "idempotent_on cfg (Scatter_guard cfg t p) Transform (data s) \<Longrightarrow>
   mem (Scatter_transform cfg t Transform dest scatter_offsets p
          (Scatter_transform cfg t Transform dest scatter_offsets p s))
   = mem (Scatter_transform cfg t Transform dest scatter_offsets p s)"
  by (rule repeated_result_mem [OF Scatter_transform_guarded Scatter_transform_guarded refl])
     (rule second_call_writes [OF Scatter_transform_guarded])

lemma Scatter_flags_transform_twice:
  "idempotent_on cfg (Scatter_flags_guard cfg t flags p) Transform (data s) \<Longrightarrow>
   mem (Scatter_flags_transform cfg t Transform dest flags scatter_offsets p
          (Scatter_flags_transform cfg t Transform dest flags scatter_offsets p s))
   = mem (Scatter_flags_transform cfg t Transform dest flags scatter_offsets p s)"
  by (rule repeated_result_mem
        [OF Scatter_flags_transform_guarded Scatter_flags_transform_guarded refl])
     (rule second_call_writes [OF Scatter_flags_transform_guarded])

lemma Scatter_transform_again:
  "mem (Scatter_transform cfg t Transform dest scatter_offsets p
          ((Scatter_transform cfg t Transform dest scatter_offsets p s)\<lparr>data := data s\<rparr>))
   = mem (Scatter_transform cfg t Transform dest scatter_offsets p s)"
  by (rule repeated_result_mem [OF Scatter_transform_guarded Scatter_transform_guarded])
     simp_all

lemma Scatter_flags_transform_again:
  "mem (Scatter_flags_transform cfg t Transform dest flags scatter_offsets p
          ((Scatter_flags_transform cfg t Transform dest flags scatter_offsets p s)
             \<lparr>data := data s\<rparr>))
   = mem (Scatter_flags_transform cfg t Transform dest flags scatter_offsets p s)"
  by (rule repeated_result_mem
        [OF Scatter_flags_transform_guarded Scatter_flags_transform_guarded])
     simp_all

text \<open>
  Claim C7, as amended.  On offsets without collisions, performing the same call a second
  time leaves the destination as the first call left it, provided the second call
  transforms the same values into the same results: the transform is idempotent on the
  values of the guard-passing elements (as the identity transform of the two shapes
  without a transform argument is), or the data array holds its original values again
  when the second call starts.
\<close>

theorem repeated_Scatter_same_data_values:
  "(collision_free cfg (Scatter_guard cfg t p) scatter_offsets \<and>
    idempotent_on cfg (Scatter_guard cfg t p) Transform (data s) \<longrightarrow>
      mem (Scatter_transform cfg t Transform dest scatter_offsets p
            (Scatter_transform cfg t Transform dest scatter_offsets p s))
      = mem (Scatter_transform cfg t Transform dest scatter_offsets p s))
   \<and> (collision_free cfg (Scatter_guard cfg t p) scatter_offsets \<longrightarrow>
      mem (Scatter_transform cfg t Transform dest scatter_offsets p
            ((Scatter_transform cfg t Transform dest scatter_offsets p s)\<lparr>data := data s\<rparr>))
      = mem (Scatter_transform cfg t Transform dest scatter_offsets p s))
   \<and> (collision_free cfg (Scatter_guard cfg t p) scatter_offsets \<longrightarrow>
      mem (Scatter cfg t dest scatter_offsets p (Scatter cfg t dest scatter_offsets p s))
      = mem (Scatter cfg t dest scatter_offsets p s))
   \<and> (collision_free cfg (Scatter_flags_guard cfg t flags p) scatter_offsets \<and>
    idempotent_on cfg (Scatter_flags_guard cfg t flags p) Transform (data s) \<longrightarrow>
      mem (Scatter_flags_transform cfg t Transform dest flags scatter_offsets p
            (Scatter_flags_transform cfg t Transform dest flags scatter_offsets p s))
      = mem (Scatter_flags_transform cfg t Transform dest flags scatter_offsets p s))
   \<and> (collision_free cfg (Scatter_flags_guard cfg t flags p) scatter_offsets \<longrightarrow>
      mem (Scatter_flags_transform cfg t Transform dest flags scatter_offsets p
            ((Scatter_flags_transform cfg t Transform dest flags scatter_offsets p s)
               \<lparr>data := data s\<rparr>))
      = mem (Scatter_flags_transform cfg t Transform dest flags scatter_offsets p s))
   \<and> (collision_free cfg (Scatter_flags_guard cfg t flags p) scatter_offsets \<longrightarrow>
      mem (Scatter_flags cfg t dest flags scatter_offsets p
            (Scatter_flags cfg t dest flags scatter_offsets p s))
      = mem (Scatter_flags cfg t dest flags scatter_offsets p s))"
  unfolding Scatter_unfold Scatter_flags_unfold
  by (intro conjI impI)
     (simp_all add: Scatter_transform_twice Scatter_flags_transform_twice
        Scatter_transform_again Scatter_flags_transform_again idempotent_on_NopTransform)

theorem repeated_Scatter_same_data_values_witness:
  "collision_free shape_2x2 (Scatter_guard shape_2x2 0 3) (tile_rank shape_2x2 0)
   \<and> idempotent_on shape_2x2 (Scatter_guard shape_2x2 0 3) cap_at_two
         (data (initial_state shape_2x2 0))
   \<and> collision_free shape_2x2 (Scatter_flags_guard shape_2x2 0 odd_slots 3)
         (tile_rank shape_2x2 0)
   \<and> mem (Scatter_transform shape_2x2 0 cap_at_two 0 (tile_rank shape_2x2 0) 3
          (Scatter_transform shape_2x2 0 cap_at_two 0 (tile_rank shape_2x2 0) 3
             (initial_state shape_2x2 0)))
       = mem (Scatter_transform shape_2x2 0 cap_at_two 0 (tile_rank shape_2x2 0) 3
             (initial_state shape_2x2 0))
   \<and> mem (Scatter shape_2x2 0 0 (tile_rank shape_2x2 0) 3
          (Scatter shape_2x2 0 0 (tile_rank shape_2x2 0) 3 (initial_state shape_2x2 0)))
       = mem (Scatter shape_2x2 0 0 (tile_rank shape_2x2 0) 3 (initial_state shape_2x2 0))
   \<and> mem (Scatter_flags shape_2x2 0 0 odd_slots (tile_rank shape_2x2 0) 3
          (Scatter_flags shape_2x2 0 0 odd_slots (tile_rank shape_2x2 0) 3
             (initial_state shape_2x2 0)))
       = mem (Scatter_flags shape_2x2 0 0 odd_slots (tile_rank shape_2x2 0) 3
             (initial_state shape_2x2 0))"
proof -
  have h1: "collision_free shape_2x2 (Scatter_guard shape_2x2 0 3) (tile_rank shape_2x2 0)"
    by code_simp
  have h2: "idempotent_on shape_2x2 (Scatter_guard shape_2x2 0 3) cap_at_two
         (data (initial_state shape_2x2 0))"
    by code_simp
  have h3: "collision_free shape_2x2 (Scatter_flags_guard shape_2x2 0 odd_slots 3)
         (tile_rank shape_2x2 0)"
    by code_simp
  from repeated_Scatter_same_data_values [where cfg = shape_2x2 and t = 0 and p = 3
      and Transform = cap_at_two and dest = 0 and scatter_offsets = "tile_rank shape_2x2 0"
      and s = "initial_state shape_2x2 0" and flags = odd_slots] h1 h2 h3
  show ?thesis by (simp only: simp_thms)
qed

text \<open>
  Claim C7 as stated fails for the shape with a transform: the transform mutates
  \<open>data\<close> in place, so a second identical call transforms the values a second time.
  With the doubling transform on a full tile of four elements holding \<open>0, 1, 2, 3\<close>
  and the identity offsets, cell \<open>3\<close> holds \<open>6\<close> after one call and \<open>12\<close> after two.
\<close>

theorem repeated_Scatter_transform_changes_destination:
  "collision_free shape_2x2 (Scatter_guard shape_2x2 0 4) (tile_rank shape_2x2 0)
   \<and> mem (Scatter_transform shape_2x2 0 double 0 (tile_rank shape_2x2 0) 4
          (initial_state shape_2x2 0)) 3 = 6
   \<and> mem (Scatter_transform shape_2x2 0 double 0 (tile_rank shape_2x2 0) 4
          (Scatter_transform shape_2x2 0 double 0 (tile_rank shape_2x2 0) 4
             (initial_state shape_2x2 0))) 3 = 12
   \<and> mem (Scatter_transform shape_2x2 0 double 0 (tile_rank shape_2x2 0) 4
          (Scatter_transform shape_2x2 0 double 0 (tile_rank shape_2x2 0) 4
             (initial_state shape_2x2 0)))
       \<noteq> mem (Scatter_transform shape_2x2 0 double 0 (tile_rank shape_2x2 0) 4
          (initial_state shape_2x2 0))"
proof -
  have a: "collision_free shape_2x2 (Scatter_guard shape_2x2 0 4) (tile_rank shape_2x2 0)"
    by code_simp
  have b: "mem (Scatter_transform shape_2x2 0 double 0 (tile_rank shape_2x2 0) 4
          (initial_state shape_2x2 0)) 3 = 6"
    by code_simp
  have c: "mem (Scatter_transform shape_2x2 0 double 0 (tile_rank shape_2x2 0) 4
          (Scatter_transform shape_2x2 0 double 0 (tile_rank shape_2x2 0) 4
             (initial_state shape_2x2 0))) 3 = 12"
    by code_simp
  have d: "mem (Scatter_transform shape_2x2 0 double 0 (tile_rank shape_2x2 0) 4
          (Scatter_transform shape_2x2 0 double 0 (tile_rank shape_2x2 0) 4
             (initial_state shape_2x2 0)))
       \<noteq> mem (Scatter_transform shape_2x2 0 double 0 (tile_rank shape_2x2 0) 4
          (initial_state shape_2x2 0))"
  proof
    assume "mem (Scatter_transform shape_2x2 0 double 0 (tile_rank shape_2x2 0) 4
          (Scatter_transform shape_2x2 0 double 0 (tile_rank shape_2x2 0) 4
             (initial_state shape_2x2 0)))
       = mem (Scatter_transform shape_2x2 0 double 0 (tile_rank shape_2x2 0) 4
          (initial_state shape_2x2 0))"
    with b c show False by simp
  qed
  from a b c d show ?thesis by blast
qed

section \<open>The scenario of the partial tile\<close>

text \<open>
  Claim C8.  One lane, two loads of eight vector slots (tile capacity 16), a destination
  of 32 cells holding zero, offsets and values both equal to the tile rank 0..15, no
  flags, no transform, \<open>partial_tile_size = 10\<close>: after the call the cells 0..9 hold
  0..9 and the cells 10..31 hold zero.
\<close>

theorem scenario_partial_tile_10_of_16:
  "TILE_SIZE shape_16 = 16
   \<and> map (mem (initial_state shape_16 0)) [0..31] =
       [0, 0, 0, 0, 0, 0, 0, 0, 0, 0, 0, 0, 0, 0, 0, 0,
        0, 0, 0, 0, 0, 0, 0, 0, 0, 0, 0, 0, 0, 0, 0, 0]
   \<and> map (\<lambda>e. data (initial_state shape_16 0) (fst e) (snd e)) (tile_elements shape_16) =
       [0, 1, 2, 3, 4, 5, 6, 7, 8, 9, 10, 11, 12, 13, 14, 15]
   \<and> map (\<lambda>e. tile_rank shape_16 0 (fst e) (snd e)) (tile_elements shape_16) =
       [0, 1, 2, 3, 4, 5, 6, 7, 8, 9, 10, 11, 12, 13, 14, 15]
   \<and> map (mem (Scatter shape_16 0 0 (tile_rank shape_16 0) 10 (initial_state shape_16 0)))
         [0..31] =
       [0, 1, 2, 3, 4, 5, 6, 7, 8, 9, 0, 0, 0, 0, 0, 0,
        0, 0, 0, 0, 0, 0, 0, 0, 0, 0, 0, 0, 0, 0, 0, 0]"
  by code_simp

text \<open>
  The same scenario on a tile of two lanes with two loads of four slots each, the two
  lanes' calls running one after the other, whichever comes first.
\<close>

lemma scenario_two_lanes_in_turn:
  "TILE_SIZE shape_2_lanes = 16
   \<and> map (mem (Scatter shape_2_lanes 1 0 (tile_rank shape_2_lanes 1) 10
         (next_lane (Scatter shape_2_lanes 0 0 (tile_rank shape_2_lanes 0) 10
                       (initial_state shape_2_lanes 0)) shape_2_lanes 1))) [0..31] =
       [0, 1, 2, 3, 4, 5, 6, 7, 8, 9, 0, 0, 0, 0, 0, 0,
        0, 0, 0, 0, 0, 0, 0, 0, 0, 0, 0, 0, 0, 0, 0, 0]
   \<and> map (mem (Scatter shape_2_lanes 0 0 (tile_rank shape_2_lanes 0) 10
         (next_lane (Scatter shape_2_lanes 1 0 (tile_rank shape_2_lanes 1) 10
                       (initial_state shape_2_lanes 1)) shape_2_lanes 0))) [0..31] =
       [0, 1, 2, 3, 4, 5, 6, 7, 8, 9, 0, 0, 0, 0, 0, 0,
        0, 0, 0, 0, 0, 0, 0, 0, 0, 0, 0, 0, 0, 0, 0, 0]"
  by code_simp

section \<open>A partial tile size beyond the capacity\<close>

lemma Scatter_guard_oversized:
  "int (TILE_SIZE cfg) \<le> p \<Longrightarrow> Scatter_guard cfg t p = guard_unguarded"
  by (simp add: Scatter_guard_def)

lemma Scatter_flags_guard_oversized:
  "int (TILE_SIZE cfg) \<le> p \<Longrightarrow> Scatter_flags_guard cfg t flags p = guard_flags flags"
  by (simp add: Scatter_flags_guard_def)

lemma Scatter_transform_oversized:
  "int (TILE_SIZE cfg) \<le> p \<Longrightarrow>
   Scatter_transform cfg t Transform dest scatter_offsets p s =
     Invoke_unguarded cfg Transform 0 0 dest scatter_offsets (log_compare s)"
  by (simp add: Scatter_transform_def log_compare_def Let_def)

lemma Scatter_flags_transform_oversized:
  "int (TILE_SIZE cfg) \<le> p \<Longrightarrow>
   Scatter_flags_transform cfg t Transform dest flags scatter_offsets p s =
     Invoke_flags cfg Transform 0 0 dest scatter_offsets flags (log_compare s)"
  by (simp add: Scatter_flags_transform_def log_compare_def Let_def)

text \<open>
  Claim C10.  For every \<open>partial_tile_size\<close> greater than or equal to \<open>TILE_SIZE\<close>,
  also beyond it, each \<open>Scatter\<close> shape does exactly what the full-tile call does: it
  runs the variant without boundary check, and every element of the tile (every element
  whose flag is true, when flags are supplied) is stored once; the memory after the call
  is the memory before it with the writes of all those elements applied.
\<close>

theorem Scatter_oversized_partial_tile_size:
  assumes "int (TILE_SIZE cfg) \<le> p"
  shows
  "(Scatter_transform cfg t Transform dest scatter_offsets p s =
      Scatter_transform cfg t Transform dest scatter_offsets (int (TILE_SIZE cfg)) s
    \<and> Scatter_transform cfg t Transform dest scatter_offsets p s =
      Invoke_unguarded cfg Transform 0 0 dest scatter_offsets (log_compare s)
    \<and> stores_of_element
        (events_of_call s (Scatter_transform cfg t Transform dest scatter_offsets p s)) l v =
      expected_stores cfg guard_unguarded Transform dest scatter_offsets (data s) l v
    \<and> mem (Scatter_transform cfg t Transform dest scatter_offsets p s) =
      apply_writes (guarded_writes cfg guard_unguarded Transform dest scatter_offsets (data s))
        (mem s))
   \<and> (Scatter cfg t dest scatter_offsets p s =
      Scatter cfg t dest scatter_offsets (int (TILE_SIZE cfg)) s
    \<and> Scatter cfg t dest scatter_offsets p s =
      Invoke_unguarded cfg NopTransform 0 0 dest scatter_offsets (log_compare s)
    \<and> stores_of_element (events_of_call s (Scatter cfg t dest scatter_offsets p s)) l v =
      expected_stores cfg guard_unguarded NopTransform dest scatter_offsets (data s) l v
    \<and> mem (Scatter cfg t dest scatter_offsets p s) =
      apply_writes (guarded_writes cfg guard_unguarded NopTransform dest scatter_offsets (data s))
        (mem s))
   \<and> (Scatter_flags_transform cfg t Transform dest flags scatter_offsets p s =
      Scatter_flags_transform cfg t Transform dest flags scatter_offsets (int (TILE_SIZE cfg)) s
    \<and> Scatter_flags_transform cfg t Transform dest flags scatter_offsets p s =
      Invoke_flags cfg Transform 0 0 dest scatter_offsets flags (log_compare s)
    \<and> stores_of_element
        (events_of_call s
           (Scatter_flags_transform cfg t Transform dest flags scatter_offsets p s)) l v =
      expected_stores cfg (guard_flags flags) Transform dest scatter_offsets (data s) l v
    \<and> mem (Scatter_flags_transform cfg t Transform dest flags scatter_offsets p s) =
      apply_writes (guarded_writes cfg (guard_flags flags) Transform dest scatter_offsets (data s))
        (mem s))
   \<and> (Scatter_flags cfg t dest flags scatter_offsets p s =
      Scatter_flags cfg t dest flags scatter_offsets (int (TILE_SIZE cfg)) s
    \<and> Scatter_flags cfg t dest flags scatter_offsets p s =
      Invoke_flags cfg NopTransform 0 0 dest scatter_offsets flags (log_compare s)
    \<and> stores_of_element
        (events_of_call s (Scatter_flags cfg t dest flags scatter_offsets p s)) l v =
      expected_stores cfg (guard_flags flags) NopTransform dest scatter_offsets (data s) l v
    \<and> mem (Scatter_flags cfg t dest flags scatter_offsets p s) =
      apply_writes (guarded_writes cfg (guard_flags flags) NopTransform dest scatter_offsets
                      (data s)) (mem s))"
proof -
  from assms have g: "Scatter_guard cfg t p = guard_unguarded"
    by (rule Scatter_guard_oversized)
  from assms have gf: "Scatter_flags_guard cfg t flags p = guard_flags flags"
    by (rule Scatter_flags_guard_oversized)
  have st: "stores_of_element
        (events_of_call s (Scatter_transform cfg t T dest scatter_offsets p s)) l v =
      expected_stores cfg guard_unguarded T dest scatter_offsets (data s) l v" for T
    using Scatter_transform_stores [of s cfg t T dest scatter_offsets p l v]
    by (simp only: g)
  have sf: "stores_of_element
        (events_of_call s (Scatter_flags_transform cfg t T dest flags scatter_offsets p s)) l v =
      expected_stores cfg (guard_flags flags) T dest scatter_offsets (data s) l v" for T
    using Scatter_flags_transform_stores [of s cfg t T dest flags scatter_offsets p l v]
    by (simp only: gf)
  have mt: "mem (Scatter_transform cfg t T dest scatter_offsets p s) =
      apply_writes (guarded_writes cfg guard_unguarded T dest scatter_offsets (data s))
        (mem s)" for T
    using Scatter_transform_writes [of cfg t T dest scatter_offsets p s]
    by (simp only: g)
  have mf: "mem (Scatter_flags_transform cfg t T dest flags scatter_offsets p s) =
      apply_writes (guarded_writes cfg (guard_flags flags) T dest scatter_offsets (data s))
        (mem s)" for T
    using Scatter_flags_transform_writes [of cfg t T dest flags scatter_offsets p s]
    by (simp only: gf)
  have ut: "Scatter_transform cfg t T dest scatter_offsets p s =
      Invoke_unguarded cfg T 0 0 dest scatter_offsets (log_compare s)" for T
    using assms by (rule Scatter_transform_oversized)
  have uf: "Scatter_flags_transform cfg t T dest flags scatter_offsets p s =
      Invoke_flags cfg T 0 0 dest scatter_offsets flags (log_compare s)" for T
    using assms by (rule Scatter_flags_transform_oversized)
  have et: "Scatter_transform cfg t T dest scatter_offsets p s =
      Scatter_transform cfg t T dest scatter_offsets (int (TILE_SIZE cfg)) s" for T
    by (simp only: ut Scatter_transform_oversized [OF order_refl])
  have ef: "Scatter_flags_transform cfg t T dest flags scatter_offsets p s =
      Scatter_flags_transform cfg t T dest flags scatter_offsets (int (TILE_SIZE cfg)) s" for T
    by (simp only: uf Scatter_flags_transform_oversized [OF order_refl])
  show ?thesis
    unfolding Scatter_unfold Scatter_flags_unfold
    by (intro conjI) (rule ut uf et ef st sf mt mf)+
qed

theorem Scatter_oversized_partial_tile_size_witness:
  "int (TILE_SIZE shape_2x2) \<le> 9
   \<and> Scatter_transform shape_2x2 0 double 0 (tile_rank shape_2x2 0) 9
         (initial_state shape_2x2 0) =
       Scatter_transform shape_2x2 0 double 0 (tile_rank shape_2x2 0)
         (int (TILE_SIZE shape_2x2)) (initial_state shape_2x2 0)
   \<and> stores_of_element (events_of_call (initial_state shape_2x2 0)
         (Scatter_transform shape_2x2 0 double 0 (tile_rank shape_2x2 0) 9
            (initial_state shape_2x2 0))) 1 1 = [(3, 6)]
   \<and> stores_of_element (events_of_call (initial_state shape_2x2 0)
         (Scatter_flags shape_2x2 0 0 odd_slots (tile_rank shape_2x2 0) 9
            (initial_state shape_2x2 0))) 1 1 = [(3, 3)]
   \<and> map (mem (Scatter_transform shape_2x2 0 double 0 (tile_rank shape_2x2 0) 9
            (initial_state shape_2x2 0))) [0, 1, 2, 3] = [0, 2, 4, 6]
   \<and> map (mem (Scatter_flags shape_2x2 0 0 odd_slots (tile_rank shape_2x2 0) 9
            (initial_state shape_2x2 0))) [0, 1, 2, 3] = [0, 1, 0, 3]"
proof -
  have h: "int (TILE_SIZE shape_2x2) \<le> 9"
    by code_simp
  have e1: "expected_stores shape_2x2 guard_unguarded double 0 (tile_rank shape_2x2 0)
      (data (initial_state shape_2x2 0)) 1 1 = [(3, 6)]"
    by code_simp
  have e2: "expected_stores shape_2x2 (guard_flags odd_slots) NopTransform 0
      (tile_rank shape_2x2 0) (data (initial_state shape_2x2 0)) 1 1 = [(3, 3)]"
    by code_simp
  have v1: "map (apply_writes (guarded_writes shape_2x2 guard_unguarded double 0
      (tile_rank shape_2x2 0) (data (initial_state shape_2x2 0)))
      (mem (initial_state shape_2x2 0))) [0, 1, 2, 3] = [0, 2, 4, 6]"
    by code_simp
  have v2: "map (apply_writes (guarded_writes shape_2x2 (guard_flags odd_slots) NopTransform 0
      (tile_rank shape_2x2 0) (data (initial_state shape_2x2 0)))
      (mem (initial_state shape_2x2 0))) [0, 1, 2, 3] = [0, 1, 0, 3]"
    by code_simp
  note inst = Scatter_oversized_partial_tile_size [OF h, where t = 0 and Transform = double
      and dest = 0 and scatter_offsets = "tile_rank shape_2x2 0"
      and s = "initial_state shape_2x2 0" and l = 1 and v = 1 and flags = odd_slots]
  note a = inst [THEN conjunct1, THEN conjunct1]
  note b = inst [THEN conjunct1, THEN conjunct2, THEN conjunct2, THEN conjunct1, THEN trans,
      OF e1]
  note c = inst [THEN conjunct2, THEN conjunct2, THEN conjunct2, THEN conjunct2,
      THEN conjunct2, THEN conjunct1, THEN trans, OF e2]
  note w1 = v1 [folded inst [THEN conjunct1, THEN conjunct2, THEN conjunct2, THEN conjunct2]]
  note w2 = v2 [folded inst [THEN conjunct2, THEN conjunct2, THEN conjunct2, THEN conjunct2,
      THEN conjunct2, THEN conjunct2]]
  show ?thesis by (intro conjI h a b c w1 w2)
qed

end
